theory Spec2Isabelle
  imports Complex_Main
begin

section \<open>JavaScript values used by the two servers\<close>

text \<open>
  The repository holds two Express servers with a \<^verbatim>\<open>POST /summarize\<close> route:
  the two-call server of \<^verbatim>\<open>src/unnamed/part_000\<close> (summarise, then translate) and the
  one-call server of \<^verbatim>\<open>src/server/index.js\<close>. Both are embedded here.

  A JavaScript string is held as the bytes of its UTF-8 encoding, so the literals of the
  source that leave ASCII appear as byte lists. An \<^verbatim>\<open>Error\<close> is held as its message.
\<close>

type_synonym error = string

definition newline :: string where
  "newline = [CHR 0x0A]"

definition quote :: string where
  "quote = [CHR 0x27]"

subsection \<open>\<^verbatim>\<open>String.prototype.trim\<close>\<close>

text \<open>
  \<^verbatim>\<open>trim\<close> removes white space and line terminators from both ends: the code points
  U+0009 to U+000D and U+0020 (one byte each), U+00A0 (two bytes), and U+1680,
  U+2000 to U+200A, U+2028, U+2029, U+202F, U+205F, U+3000 and U+FEFF (three bytes each).
\<close>

definition ws1 :: "char list" where
  "ws1 = [CHR 0x09, CHR 0x0A, CHR 0x0B, CHR 0x0C, CHR 0x0D, CHR 0x20]"

definition ws2 :: "(char \<times> char) list" where
  "ws2 = [(CHR 0xC2, CHR 0xA0)]"

definition ws3 :: "(char \<times> char \<times> char) list" where
  "ws3 =
     [(CHR 0xE1, CHR 0x9A, CHR 0x80),
      (CHR 0xE2, CHR 0x80, CHR 0x80), (CHR 0xE2, CHR 0x80, CHR 0x81),
      (CHR 0xE2, CHR 0x80, CHR 0x82), (CHR 0xE2, CHR 0x80, CHR 0x83),
      (CHR 0xE2, CHR 0x80, CHR 0x84), (CHR 0xE2, CHR 0x80, CHR 0x85),
      (CHR 0xE2, CHR 0x80, CHR 0x86), (CHR 0xE2, CHR 0x80, CHR 0x87),
      (CHR 0xE2, CHR 0x80, CHR 0x88), (CHR 0xE2, CHR 0x80, CHR 0x89),
      (CHR 0xE2, CHR 0x80, CHR 0x8A),
      (CHR 0xE2, CHR 0x80, CHR 0xA8), (CHR 0xE2, CHR 0x80, CHR 0xA9),
      (CHR 0xE2, CHR 0x80, CHR 0xAF), (CHR 0xE2, CHR 0x81, CHR 0x9F),
      (CHR 0xE3, CHR 0x80, CHR 0x80), (CHR 0xEF, CHR 0xBB, CHR 0xBF)]"

text \<open>
  \<open>strip\<close> drops the white space a string starts with; the tables are parameters so that
  the same function, on the reversed string with the reversed byte sequences, drops the
  white space a string ends with.
\<close>

fun strip :: "char list \<Rightarrow> (char \<times> char) list \<Rightarrow> (char \<times> char \<times> char) list \<Rightarrow> string \<Rightarrow> string" where
  "strip w1 w2 w3 [] = []"
| "strip w1 w2 w3 (a # s) =
     (if a \<in> set w1 then strip w1 w2 w3 s
      else (case s of
              [] \<Rightarrow> [a]
            | b # s' \<Rightarrow>
                if (a, b) \<in> set w2 then strip w1 w2 w3 s'
                else (case s' of
                        [] \<Rightarrow> [a, b]
                      | c # s'' \<Rightarrow>
                          if (a, b, c) \<in> set w3 then strip w1 w2 w3 s'' else a # s)))"

definition trimStart :: "string \<Rightarrow> string" where
  "trimStart s = strip ws1 ws2 ws3 s"

definition trimEnd :: "string \<Rightarrow> string" where
  "trimEnd s =
     rev (strip ws1 (map (\<lambda>(a, b). (b, a)) ws2) (map (\<lambda>(a, b, c). (c, b, a)) ws3) (rev s))"

definition trim :: "string \<Rightarrow> string" where
  "trim s = trimEnd (trimStart s)"

subsection \<open>Template literals and property reads\<close>

text \<open>
  A value interpolated into a template literal is converted to a string: \<^verbatim>\<open>undefined\<close>
  and \<^verbatim>\<open>null\<close> become their names. \<open>None\<close> stands for the absent value in both
  functions below.
\<close>

definition template_undefined :: "string option \<Rightarrow> string" where
  "template_undefined v = (case v of None \<Rightarrow> ''undefined'' | Some s \<Rightarrow> s)"

definition template_null :: "string option \<Rightarrow> string" where
  "template_null v = (case v of None \<Rightarrow> ''null'' | Some s \<Rightarrow> s)"

text \<open>
  Both registries are object literals, so \<^verbatim>\<open>REGISTRY[key]\<close> finds the literal's own
  properties and, failing that, the properties every object inherits from
  \<^verbatim>\<open>Object.prototype\<close>. An inherited property is a function (or, for
  \<^verbatim>\<open>__proto__\<close>, the prototype object itself): it is truthy, and reading a field of
  it gives \<^verbatim>\<open>undefined\<close>.
\<close>

definition object_prototype_keys :: "string list" where
  "object_prototype_keys =
     [''constructor'', ''__defineGetter__'', ''__defineSetter__'', ''hasOwnProperty'',
      ''__lookupGetter__'', ''__lookupSetter__'', ''isPrototypeOf'',
      ''propertyIsEnumerable'', ''toString'', ''valueOf'', ''__proto__'',
      ''toLocaleString'']"

datatype 'a property = Own 'a | Inherited string | NoProperty

definition js_get :: "(string \<times> 'a) list \<Rightarrow> string \<Rightarrow> 'a property" where
  "js_get obj k =
     (case map_of obj k of
        Some v \<Rightarrow> Own v
      | None \<Rightarrow> if k \<in> set object_prototype_keys then Inherited k else NoProperty)"

text \<open>\<^verbatim>\<open>!REGISTRY[key]\<close> for a registry of objects: only a missing property is falsy.\<close>

definition truthy_object :: "'a property \<Rightarrow> bool" where
  "truthy_object p = (case p of Own _ \<Rightarrow> True | Inherited _ \<Rightarrow> True | NoProperty \<Rightarrow> False)"

text \<open>The same for a registry of strings: an own empty string is falsy as well.\<close>

definition truthy_string :: "string property \<Rightarrow> bool" where
  "truthy_string p = (case p of Own s \<Rightarrow> s \<noteq> [] | Inherited _ \<Rightarrow> True | NoProperty \<Rightarrow> False)"

definition cannot_read :: "string \<Rightarrow> string \<Rightarrow> error" where
  "cannot_read what field =
     ''Cannot read properties of '' @ what @ '' (reading '' @ quote @ field @ quote @ '')''"

text \<open>
  \<^verbatim>\<open>REGISTRY[key].field\<close>: the field of an own entry, \<^verbatim>\<open>undefined\<close> (\<open>None\<close>) on an
  inherited property, a \<^verbatim>\<open>TypeError\<close> when there is no property at all.
\<close>

definition js_field :: "('a \<Rightarrow> 'b) \<Rightarrow> string \<Rightarrow> 'a property \<Rightarrow> error + 'b option" where
  "js_field f name p =
     (case p of
        Own v \<Rightarrow> Inr (Some (f v))
      | Inherited _ \<Rightarrow> Inr None
      | NoProperty \<Rightarrow> Inl (cannot_read ''undefined'' name))"

text \<open>
  An inherited property interpolated into a template literal: a built-in function prints
  as its native-code stub (the constructor's name is \<^verbatim>\<open>Object\<close>), the prototype object
  as \<^verbatim>\<open>[object Object]\<close>.
\<close>

definition inherited_to_string :: "string \<Rightarrow> string" where
  "inherited_to_string k =
     (if k = ''__proto__'' then ''[object Object]''
      else ''function '' @ (if k = ''constructor'' then ''Object'' else k) @
           ''() { [native code] }'')"

section \<open>Network calls and their trace\<close>

text \<open>
  A chat-completion request as both servers build it; \<open>max_tokens\<close> is \<open>None\<close> when the
  source passes \<^verbatim>\<open>undefined\<close>.
\<close>

record chat_request =
  messages :: "(string \<times> string) list"
  model :: string
  temperature :: rat
  max_tokens :: "nat option"

datatype call = HttpGet string | ChatCreate chat_request

text \<open>
  The world outside the process. \<open>axios_get\<close> is the HTTP fetch (it rejects on a network
  error and on a status outside 2xx) and gives the response data; \<open>jsdom\<close> builds the
  document, \<open>remove_unwanted\<close> is the removal of the elements matching the denylist
  selector, \<open>readability_parse\<close> is \<^verbatim>\<open>Readability.parse\<close>, giving \<open>None\<close> for
  \<^verbatim>\<open>null\<close> and otherwise the article's \<^verbatim>\<open>textContent\<close>; \<open>chat_create\<close> is
  \<^verbatim>\<open>openai.chat.completions.create\<close>, giving the \<^verbatim>\<open>message.content\<close> of each
  choice (\<open>None\<close> for \<^verbatim>\<open>null\<close>). Each of them may throw (\<open>Inl\<close>).

  The answers are functions of the arguments. Within one request this loses nothing:
  there is one fetch, and the summary call and the translation call never have the same
  argument (lemma \<open>summary_and_translation_requests_differ\<close>). Two requests are
  compared under the same environment.
\<close>

record 'dom env =
  axios_get :: "string \<Rightarrow> error + string"
  jsdom :: "string \<Rightarrow> error + 'dom"
  remove_unwanted :: "'dom \<Rightarrow> error + 'dom"
  readability_parse :: "'dom \<Rightarrow> error + string option"
  chat_create :: "chat_request \<Rightarrow> error + string option list"

text \<open>
  An asynchronous computation either throws or returns, and leaves the list of the
  network calls it made, in order.
\<close>

type_synonym 'a io = "(error + 'a) \<times> call list"

definition io_return :: "'a \<Rightarrow> 'a io" where
  "io_return x = (Inr x, [])"

definition io_throw :: "error \<Rightarrow> 'a io" where
  "io_throw e = (Inl e, [])"

definition io_local :: "error + 'a \<Rightarrow> 'a io" where
  "io_local r = (r, [])"

definition io_call :: "call \<Rightarrow> error + 'a \<Rightarrow> 'a io" where
  "io_call c r = (r, [c])"

definition io_bind :: "'a io \<Rightarrow> ('a \<Rightarrow> 'b io) \<Rightarrow> 'b io" where
  "io_bind m f =
     (case m of
        (Inl e, t) \<Rightarrow> (Inl e, t)
      | (Inr x, t) \<Rightarrow> (case f x of (r, t') \<Rightarrow> (r, t @ t')))"

definition io_catch :: "'a io \<Rightarrow> (error \<Rightarrow> 'a io) \<Rightarrow> 'a io" where
  "io_catch m h =
     (case m of
        (Inl e, t) \<Rightarrow> (case h e of (r, t') \<Rightarrow> (r, t @ t'))
      | (Inr x, t) \<Rightarrow> (Inr x, t))"

text \<open>\<^verbatim>\<open>completion.choices[0].message.content\<close>\<close>

definition first_content :: "string option list \<Rightarrow> error + string option" where
  "first_content choices =
     (case choices of
        [] \<Rightarrow> Inl (cannot_read ''undefined'' ''message'')
      | c # _ \<Rightarrow> Inr c)"

section \<open>HTTP requests and responses\<close>

text \<open>
  The parsed request body, with the three fields the route reads; \<open>None\<close> is a field
  the body does not have. The fields are strings, as the interface declares them.
\<close>

record request_body =
  url :: "string option"
  language :: "string option"
  summaryLength :: "string option"

datatype json_body =
    ErrorBody string
  | ErrorDetailsBody string string
  | SummaryBody "string option"

datatype response = Response nat json_body

fun status :: "response \<Rightarrow> nat" where
  "status (Response n b) = n"

fun payload :: "response \<Rightarrow> json_body" where
  "payload (Response n b) = b"

text \<open>
  Both routes destructure the body with the same defaults:
  \<^verbatim>\<open>const { url, language = 'english', summaryLength = 'medium' } = req.body\<close>.
\<close>

definition requested_language :: "request_body \<Rightarrow> string" where
  "requested_language body = (case language body of None \<Rightarrow> ''english'' | Some l \<Rightarrow> l)"

definition requested_length :: "request_body \<Rightarrow> string" where
  "requested_length body = (case summaryLength body of None \<Rightarrow> ''medium'' | Some l \<Rightarrow> l)"

section \<open>The two-call server (\<^verbatim>\<open>src/unnamed/part_000\<close>)\<close>

subsection \<open>Language configurations\<close>

record language_profile =
  code :: string
  systemPrompt :: string
  translationPrompt :: "string option"

definition english_systemPrompt :: string where
  "english_systemPrompt =
     ''You are a professional news summarizer. Create concise, accurate '' @
     ''summaries that capture the main points while maintaining context '' @
     ''and key details. Format the summary in a clear, readable way '' @
     ''with bullet points for key takeaways.''"

definition bosnian_systemPrompt :: string where
  "bosnian_systemPrompt =
     ''Vi ste profesionalni rezimator vijesti. Kreirajte sa'' @
     [CHR 0xC5, CHR 0xBE] @
     ''ete, precizne sa'' @
     [CHR 0xC5, CHR 0xBE] @
     ''etke koji obuhvataju glavne ta'' @
     [CHR 0xC4, CHR 0x8D] @
     ''ke uz o'' @
     [CHR 0xC4, CHR 0x8D] @
     ''uvanje konteksta i klju'' @
     [CHR 0xC4, CHR 0x8D] @
     ''nih detalja. Formatirajte sa'' @
     [CHR 0xC5, CHR 0xBE] @
     ''etak na jasan, '' @
     [CHR 0xC4, CHR 0x8D] @
     ''itljiv na'' @
     [CHR 0xC4, CHR 0x8D] @
     ''in sa ta'' @
     [CHR 0xC4, CHR 0x8D] @
     ''kama za klju'' @
     [CHR 0xC4, CHR 0x8D] @
     ''ne zaklju'' @
     [CHR 0xC4, CHR 0x8D] @
     ''ke.''"

definition bosnian_translationPrompt :: string where
  "bosnian_translationPrompt =
     ''Translate the following text to Bosnian/Serbian/Croatian (BSC), '' @
     ''maintaining the bullet point format and ensuring the translation '' @
     ''is natural and fluent:''"

definition german_systemPrompt :: string where
  "german_systemPrompt =
     ''Sie sind ein professioneller Nachrichtenzusammenfasser. Erstellen '' @
     ''Sie pr'' @
     [CHR 0xC3, CHR 0xA4] @
     ''gnante, genaue Zusammenfassungen, die die Hauptpunkte erfassen '' @
     ''und dabei Kontext und wichtige Details beibehalten. Formatieren '' @
     ''Sie die Zusammenfassung '' @
     [CHR 0xC3, CHR 0xBC] @
     ''bersichtlich mit Aufz'' @
     [CHR 0xC3, CHR 0xA4] @
     ''hlungspunkten f'' @
     [CHR 0xC3, CHR 0xBC] @
     ''r die wichtigsten Erkenntnisse.''"

definition german_translationPrompt :: string where
  "german_translationPrompt =
     ''Translate the following text to German, maintaining the bullet '' @
     ''point format and ensuring the translation is natural and fluent:''"

definition french_systemPrompt :: string where
  "french_systemPrompt =
     ''Vous '' @
     [CHR 0xC3, CHR 0xAA] @
     ''tes un r'' @
     [CHR 0xC3, CHR 0xA9] @
     ''sumeur professionnel d'' @
     [CHR 0x27] @
     ''actualit'' @
     [CHR 0xC3, CHR 0xA9] @
     ''s. Cr'' @
     [CHR 0xC3, CHR 0xA9] @
     ''ez des r'' @
     [CHR 0xC3, CHR 0xA9] @
     ''sum'' @
     [CHR 0xC3, CHR 0xA9] @
     ''s concis et pr'' @
     [CHR 0xC3, CHR 0xA9] @
     ''cis qui capturent les points principaux tout en maintenant le '' @
     ''contexte et les d'' @
     [CHR 0xC3, CHR 0xA9] @
     ''tails cl'' @
     [CHR 0xC3, CHR 0xA9] @
     ''s. Formatez le r'' @
     [CHR 0xC3, CHR 0xA9] @
     ''sum'' @
     [CHR 0xC3, CHR 0xA9] @
     '' de mani'' @
     [CHR 0xC3, CHR 0xA8] @
     ''re claire et lisible avec des puces pour les points essentiels.''"

definition french_translationPrompt :: string where
  "french_translationPrompt =
     ''Translate the following text to French, maintaining the bullet '' @
     ''point format and ensuring the translation is natural and fluent:''"

definition spanish_systemPrompt :: string where
  "spanish_systemPrompt =
     ''Eres un resumidor profesional de noticias. Crea res'' @
     [CHR 0xC3, CHR 0xBA] @
     ''menes concisos y precisos que capturen los puntos principales '' @
     ''mientras mantienes el contexto y los detalles clave. Formatea '' @
     ''el resumen de manera clara y legible con vi'' @
     [CHR 0xC3, CHR 0xB1] @
     ''etas para los puntos clave.''"

definition spanish_translationPrompt :: string where
  "spanish_translationPrompt =
     ''Translate the following text to Spanish, maintaining the bullet '' @
     ''point format and ensuring the translation is natural and fluent:''"

definition italian_systemPrompt :: string where
  "italian_systemPrompt =
     ''Sei un riassuntore professionale di notizie. Crea riassunti '' @
     ''concisi e accurati che catturino i punti principali mantenendo '' @
     ''il contesto e i dettagli chiave. Formatta il riassunto in modo '' @
     ''chiaro e leggibile con punti elenco per i punti chiave.''"

definition italian_translationPrompt :: string where
  "italian_translationPrompt =
     ''Translate the following text to Italian, maintaining the bullet '' @
     ''point format and ensuring the translation is natural and fluent:''"

definition turkish_systemPrompt :: string where
  "turkish_systemPrompt =
     ''Profesyonel bir haber '' @
     [CHR 0xC3, CHR 0xB6] @
     ''zetleyicisisiniz. Ba'' @
     [CHR 0xC4, CHR 0x9F] @
     ''lam'' @
     [CHR 0xC4, CHR 0xB1] @
     '' ve '' @
     [CHR 0xC3, CHR 0xB6] @
     ''nemli detaylar'' @
     [CHR 0xC4, CHR 0xB1] @
     '' korurken ana noktalar'' @
     [CHR 0xC4, CHR 0xB1] @
     '' yakalayan '' @
     [CHR 0xC3, CHR 0xB6] @
     ''zl'' @
     [CHR 0xC3, CHR 0xBC] @
     '', do'' @
     [CHR 0xC4, CHR 0x9F] @
     ''ru '' @
     [CHR 0xC3, CHR 0xB6] @
     ''zetler olu'' @
     [CHR 0xC5, CHR 0x9F] @
     ''turun. '' @
     [CHR 0xC3, CHR 0x96] @
     ''zeti, '' @
     [CHR 0xC3, CHR 0xB6] @
     ''nemli noktalar i'' @
     [CHR 0xC3, CHR 0xA7] @
     ''in madde i'' @
     [CHR 0xC5, CHR 0x9F] @
     ''aretleriyle net ve okunabilir bir '' @
     [CHR 0xC5, CHR 0x9F] @
     ''ekilde bi'' @
     [CHR 0xC3, CHR 0xA7] @
     ''imlendirin.''"

definition turkish_translationPrompt :: string where
  "turkish_translationPrompt =
     ''Translate the following text to Turkish, maintaining the bullet '' @
     ''point format and ensuring the translation is natural and fluent:''"

definition chinese_systemPrompt :: string where
  "chinese_systemPrompt =
     [CHR 0xE6, CHR 0x82, CHR 0xA8, CHR 0xE6, CHR 0x98, CHR 0xAF, CHR 0xE4, CHR 0xB8, CHR 0x80, CHR 0xE4] @
     [CHR 0xBD, CHR 0x8D, CHR 0xE4, CHR 0xB8, CHR 0x93, CHR 0xE4, CHR 0xB8, CHR 0x9A, CHR 0xE7, CHR 0x9A] @
     [CHR 0x84, CHR 0xE6, CHR 0x96, CHR 0xB0, CHR 0xE9, CHR 0x97, CHR 0xBB, CHR 0xE6, CHR 0x91, CHR 0x98] @
     [CHR 0xE8, CHR 0xA6, CHR 0x81, CHR 0xE5, CHR 0x91, CHR 0x98, CHR 0xE3, CHR 0x80, CHR 0x82, CHR 0xE5] @
     [CHR 0x88, CHR 0x9B, CHR 0xE5, CHR 0xBB, CHR 0xBA, CHR 0xE7, CHR 0xAE, CHR 0x80, CHR 0xE6, CHR 0xB4] @
     [CHR 0x81, CHR 0xE3, CHR 0x80, CHR 0x81, CHR 0xE5, CHR 0x87, CHR 0x86, CHR 0xE7, CHR 0xA1, CHR 0xAE] @
     [CHR 0xE7, CHR 0x9A, CHR 0x84, CHR 0xE6, CHR 0x91, CHR 0x98, CHR 0xE8, CHR 0xA6, CHR 0x81, CHR 0xEF] @
     [CHR 0xBC, CHR 0x8C, CHR 0xE5, CHR 0x9C, CHR 0xA8, CHR 0xE4, CHR 0xBF, CHR 0x9D, CHR 0xE6, CHR 0x8C] @
     [CHR 0x81, CHR 0xE4, CHR 0xB8, CHR 0x8A, CHR 0xE4, CHR 0xB8, CHR 0x8B, CHR 0xE6, CHR 0x96, CHR 0x87] @
     [CHR 0xE5, CHR 0x92, CHR 0x8C, CHR 0xE5, CHR 0x85, CHR 0xB3, CHR 0xE9, CHR 0x94, CHR 0xAE, CHR 0xE7] @
     [CHR 0xBB, CHR 0x86, CHR 0xE8, CHR 0x8A, CHR 0x82, CHR 0xE7, CHR 0x9A, CHR 0x84, CHR 0xE5, CHR 0x90] @
     [CHR 0x8C, CHR 0xE6, CHR 0x97, CHR 0xB6, CHR 0xE6, CHR 0x8D, CHR 0x95, CHR 0xE6, CHR 0x8D, CHR 0x89] @
     [CHR 0xE8, CHR 0xA6, CHR 0x81, CHR 0xE7, CHR 0x82, CHR 0xB9, CHR 0xE3, CHR 0x80, CHR 0x82, CHR 0xE4] @
     [CHR 0xBD, CHR 0xBF, CHR 0xE7, CHR 0x94, CHR 0xA8, CHR 0xE9, CHR 0xA1, CHR 0xB9, CHR 0xE7, CHR 0x9B] @
     [CHR 0xAE, CHR 0xE7, CHR 0xAC, CHR 0xA6, CHR 0xE5, CHR 0x8F, CHR 0xB7, CHR 0xE6, CHR 0xB8, CHR 0x85] @
     [CHR 0xE6, CHR 0x99, CHR 0xB0, CHR 0xE3, CHR 0x80, CHR 0x81, CHR 0xE6, CHR 0x98, CHR 0x93, CHR 0xE8] @
     [CHR 0xAF, CHR 0xBB, CHR 0xE5, CHR 0x9C, CHR 0xB0, CHR 0xE6, CHR 0xA0, CHR 0xBC, CHR 0xE5, CHR 0xBC] @
     [CHR 0x8F, CHR 0xE5, CHR 0x8C, CHR 0x96, CHR 0xE6, CHR 0x91, CHR 0x98, CHR 0xE8, CHR 0xA6, CHR 0x81] @
     [CHR 0xE4, CHR 0xBB, CHR 0xA5, CHR 0xE7, CHR 0xAA, CHR 0x81, CHR 0xE5, CHR 0x87, CHR 0xBA, CHR 0xE5] @
     [CHR 0x85, CHR 0xB3, CHR 0xE9, CHR 0x94, CHR 0xAE, CHR 0xE8, CHR 0xA6, CHR 0x81, CHR 0xE7, CHR 0x82] @
     [CHR 0xB9, CHR 0xE3, CHR 0x80, CHR 0x82]"

definition chinese_translationPrompt :: string where
  "chinese_translationPrompt =
     ''Translate the following text to Chinese (Simplified), maintaining '' @
     ''the bullet point format and ensuring the translation is natural '' @
     ''and fluent:''"

definition russian_systemPrompt :: string where
  "russian_systemPrompt =
     [CHR 0xD0, CHR 0x92, CHR 0xD1, CHR 0x8B] @
     '' '' @
     [CHR 0xD0, CHR 0xBF, CHR 0xD1, CHR 0x80, CHR 0xD0, CHR 0xBE, CHR 0xD1, CHR 0x84, CHR 0xD0, CHR 0xB5] @
     [CHR 0xD1, CHR 0x81, CHR 0xD1, CHR 0x81, CHR 0xD0, CHR 0xB8, CHR 0xD0, CHR 0xBE, CHR 0xD0, CHR 0xBD] @
     [CHR 0xD0, CHR 0xB0, CHR 0xD0, CHR 0xBB, CHR 0xD1, CHR 0x8C, CHR 0xD0, CHR 0xBD, CHR 0xD1, CHR 0x8B] @
     [CHR 0xD0, CHR 0xB9] @
     '' '' @
     [CHR 0xD1, CHR 0x81, CHR 0xD0, CHR 0xBE, CHR 0xD1, CHR 0x81, CHR 0xD1, CHR 0x82, CHR 0xD0, CHR 0xB0] @
     [CHR 0xD0, CHR 0xB2, CHR 0xD0, CHR 0xB8, CHR 0xD1, CHR 0x82, CHR 0xD0, CHR 0xB5, CHR 0xD0, CHR 0xBB] @
     [CHR 0xD1, CHR 0x8C] @
     '' '' @
     [CHR 0xD0, CHR 0xBD, CHR 0xD0, CHR 0xBE, CHR 0xD0, CHR 0xB2, CHR 0xD0, CHR 0xBE, CHR 0xD1, CHR 0x81] @
     [CHR 0xD1, CHR 0x82, CHR 0xD0, CHR 0xBD, CHR 0xD1, CHR 0x8B, CHR 0xD1, CHR 0x85] @
     '' '' @
     [CHR 0xD1, CHR 0x81, CHR 0xD0, CHR 0xB2, CHR 0xD0, CHR 0xBE, CHR 0xD0, CHR 0xB4, CHR 0xD0, CHR 0xBE] @
     [CHR 0xD0, CHR 0xBA] @
     ''. '' @
     [CHR 0xD0, CHR 0xA1, CHR 0xD0, CHR 0xBE, CHR 0xD0, CHR 0xB7, CHR 0xD0, CHR 0xB4, CHR 0xD0, CHR 0xB0] @
     [CHR 0xD0, CHR 0xB2, CHR 0xD0, CHR 0xB0, CHR 0xD0, CHR 0xB9, CHR 0xD1, CHR 0x82, CHR 0xD0, CHR 0xB5] @
     '' '' @
     [CHR 0xD0, CHR 0xBA, CHR 0xD1, CHR 0x80, CHR 0xD0, CHR 0xB0, CHR 0xD1, CHR 0x82, CHR 0xD0, CHR 0xBA] @
     [CHR 0xD0, CHR 0xB8, CHR 0xD0, CHR 0xB5] @
     '', '' @
     [CHR 0xD1, CHR 0x82, CHR 0xD0, CHR 0xBE, CHR 0xD1, CHR 0x87, CHR 0xD0, CHR 0xBD, CHR 0xD1, CHR 0x8B] @
     [CHR 0xD0, CHR 0xB5] @
     '' '' @
     [CHR 0xD1, CHR 0x81, CHR 0xD0, CHR 0xB2, CHR 0xD0, CHR 0xBE, CHR 0xD0, CHR 0xB4, CHR 0xD0, CHR 0xBA] @
     [CHR 0xD0, CHR 0xB8] @
     '', '' @
     [CHR 0xD0, CHR 0xBA, CHR 0xD0, CHR 0xBE, CHR 0xD1, CHR 0x82, CHR 0xD0, CHR 0xBE, CHR 0xD1, CHR 0x80] @
     [CHR 0xD1, CHR 0x8B, CHR 0xD0, CHR 0xB5] @
     '' '' @
     [CHR 0xD0, CHR 0xBE, CHR 0xD1, CHR 0x82, CHR 0xD1, CHR 0x80, CHR 0xD0, CHR 0xB0, CHR 0xD0, CHR 0xB6] @
     [CHR 0xD0, CHR 0xB0, CHR 0xD1, CHR 0x8E, CHR 0xD1, CHR 0x82] @
     '' '' @
     [CHR 0xD0, CHR 0xBE, CHR 0xD1, CHR 0x81, CHR 0xD0, CHR 0xBD, CHR 0xD0, CHR 0xBE, CHR 0xD0, CHR 0xB2] @
     [CHR 0xD0, CHR 0xBD, CHR 0xD1, CHR 0x8B, CHR 0xD0, CHR 0xB5] @
     '' '' @
     [CHR 0xD0, CHR 0xBC, CHR 0xD0, CHR 0xBE, CHR 0xD0, CHR 0xBC, CHR 0xD0, CHR 0xB5, CHR 0xD0, CHR 0xBD] @
     [CHR 0xD1, CHR 0x82, CHR 0xD1, CHR 0x8B] @
     '', '' @
     [CHR 0xD1, CHR 0x81, CHR 0xD0, CHR 0xBE, CHR 0xD1, CHR 0x85, CHR 0xD1, CHR 0x80, CHR 0xD0, CHR 0xB0] @
     [CHR 0xD0, CHR 0xBD, CHR 0xD1, CHR 0x8F, CHR 0xD1, CHR 0x8F] @
     '' '' @
     [CHR 0xD0, CHR 0xBA, CHR 0xD0, CHR 0xBE, CHR 0xD0, CHR 0xBD, CHR 0xD1, CHR 0x82, CHR 0xD0, CHR 0xB5] @
     [CHR 0xD0, CHR 0xBA, CHR 0xD1, CHR 0x81, CHR 0xD1, CHR 0x82] @
     '' '' @
     [CHR 0xD0, CHR 0xB8] @
     '' '' @
     [CHR 0xD0, CHR 0xBA, CHR 0xD0, CHR 0xBB, CHR 0xD1, CHR 0x8E, CHR 0xD1, CHR 0x87, CHR 0xD0, CHR 0xB5] @
     [CHR 0xD0, CHR 0xB2, CHR 0xD1, CHR 0x8B, CHR 0xD0, CHR 0xB5] @
     '' '' @
     [CHR 0xD0, CHR 0xB4, CHR 0xD0, CHR 0xB5, CHR 0xD1, CHR 0x82, CHR 0xD0, CHR 0xB0, CHR 0xD0, CHR 0xBB] @
     [CHR 0xD0, CHR 0xB8] @
     ''. '' @
     [CHR 0xD0, CHR 0xA4, CHR 0xD0, CHR 0xBE, CHR 0xD1, CHR 0x80, CHR 0xD0, CHR 0xBC, CHR 0xD0, CHR 0xB0] @
     [CHR 0xD1, CHR 0x82, CHR 0xD0, CHR 0xB8, CHR 0xD1, CHR 0x80, CHR 0xD1, CHR 0x83, CHR 0xD0, CHR 0xB9] @
     [CHR 0xD1, CHR 0x82, CHR 0xD0, CHR 0xB5] @
     '' '' @
     [CHR 0xD1, CHR 0x81, CHR 0xD0, CHR 0xB2, CHR 0xD0, CHR 0xBE, CHR 0xD0, CHR 0xB4, CHR 0xD0, CHR 0xBA] @
     [CHR 0xD1, CHR 0x83] @
     '' '' @
     [CHR 0xD1, CHR 0x87, CHR 0xD0, CHR 0xB5, CHR 0xD1, CHR 0x82, CHR 0xD0, CHR 0xBA, CHR 0xD0, CHR 0xBE] @
     '' '' @
     [CHR 0xD0, CHR 0xB8] @
     '' '' @
     [CHR 0xD1, CHR 0x80, CHR 0xD0, CHR 0xB0, CHR 0xD0, CHR 0xB7, CHR 0xD0, CHR 0xB1, CHR 0xD0, CHR 0xBE] @
     [CHR 0xD1, CHR 0x80, CHR 0xD1, CHR 0x87, CHR 0xD0, CHR 0xB8, CHR 0xD0, CHR 0xB2, CHR 0xD0, CHR 0xBE] @
     '', '' @
     [CHR 0xD0, CHR 0xB8, CHR 0xD1, CHR 0x81, CHR 0xD0, CHR 0xBF, CHR 0xD0, CHR 0xBE, CHR 0xD0, CHR 0xBB] @
     [CHR 0xD1, CHR 0x8C, CHR 0xD0, CHR 0xB7, CHR 0xD1, CHR 0x83, CHR 0xD1, CHR 0x8F] @
     '' '' @
     [CHR 0xD0, CHR 0xBC, CHR 0xD0, CHR 0xB0, CHR 0xD1, CHR 0x80, CHR 0xD0, CHR 0xBA, CHR 0xD0, CHR 0xB8] @
     [CHR 0xD1, CHR 0x80, CHR 0xD0, CHR 0xBE, CHR 0xD0, CHR 0xB2, CHR 0xD0, CHR 0xB0, CHR 0xD0, CHR 0xBD] @
     [CHR 0xD0, CHR 0xBD, CHR 0xD1, CHR 0x8B, CHR 0xD0, CHR 0xB5] @
     '' '' @
     [CHR 0xD0, CHR 0xBF, CHR 0xD1, CHR 0x83, CHR 0xD0, CHR 0xBD, CHR 0xD0, CHR 0xBA, CHR 0xD1, CHR 0x82] @
     [CHR 0xD1, CHR 0x8B] @
     '' '' @
     [CHR 0xD0, CHR 0xB4, CHR 0xD0, CHR 0xBB, CHR 0xD1, CHR 0x8F] @
     '' '' @
     [CHR 0xD0, CHR 0xBA, CHR 0xD0, CHR 0xBB, CHR 0xD1, CHR 0x8E, CHR 0xD1, CHR 0x87, CHR 0xD0, CHR 0xB5] @
     [CHR 0xD0, CHR 0xB2, CHR 0xD1, CHR 0x8B, CHR 0xD1, CHR 0x85] @
     '' '' @
     [CHR 0xD0, CHR 0xBC, CHR 0xD0, CHR 0xBE, CHR 0xD0, CHR 0xBC, CHR 0xD0, CHR 0xB5, CHR 0xD0, CHR 0xBD] @
     [CHR 0xD1, CHR 0x82, CHR 0xD0, CHR 0xBE, CHR 0xD0, CHR 0xB2] @
     ''.''"

definition russian_translationPrompt :: string where
  "russian_translationPrompt =
     ''Translate the following text to Russian, maintaining the bullet '' @
     ''point format and ensuring the translation is natural and fluent:''"

definition arabic_systemPrompt :: string where
  "arabic_systemPrompt =
     [CHR 0xD8, CHR 0xA3, CHR 0xD9, CHR 0x86, CHR 0xD8, CHR 0xAA] @
     '' '' @
     [CHR 0xD9, CHR 0x85, CHR 0xD9, CHR 0x84, CHR 0xD8, CHR 0xAE, CHR 0xD8, CHR 0xB5] @
     '' '' @
     [CHR 0xD8, CHR 0xA3, CHR 0xD8, CHR 0xAE, CHR 0xD8, CHR 0xA8, CHR 0xD8, CHR 0xA7, CHR 0xD8, CHR 0xB1] @
     '' '' @
     [CHR 0xD9, CHR 0x85, CHR 0xD8, CHR 0xAD, CHR 0xD8, CHR 0xAA, CHR 0xD8, CHR 0xB1, CHR 0xD9, CHR 0x81] @
     ''. '' @
     [CHR 0xD9, CHR 0x82, CHR 0xD9, CHR 0x85] @
     '' '' @
     [CHR 0xD8, CHR 0xA8, CHR 0xD8, CHR 0xA5, CHR 0xD9, CHR 0x86, CHR 0xD8, CHR 0xB4, CHR 0xD8, CHR 0xA7] @
     [CHR 0xD8, CHR 0xA1] @
     '' '' @
     [CHR 0xD9, CHR 0x85, CHR 0xD9, CHR 0x84, CHR 0xD8, CHR 0xAE, CHR 0xD8, CHR 0xB5, CHR 0xD8, CHR 0xA7] @
     [CHR 0xD8, CHR 0xAA] @
     '' '' @
     [CHR 0xD9, CHR 0x85, CHR 0xD9, CHR 0x88, CHR 0xD8, CHR 0xAC, CHR 0xD8, CHR 0xB2, CHR 0xD8, CHR 0xA9] @
     '' '' @
     [CHR 0xD9, CHR 0x88, CHR 0xD8, CHR 0xAF, CHR 0xD9, CHR 0x82, CHR 0xD9, CHR 0x8A, CHR 0xD9, CHR 0x82] @
     [CHR 0xD8, CHR 0xA9] @
     '' '' @
     [CHR 0xD8, CHR 0xAA, CHR 0xD9, CHR 0x84, CHR 0xD8, CHR 0xAA, CHR 0xD9, CHR 0x82, CHR 0xD8, CHR 0xB7] @
     '' '' @
     [CHR 0xD8, CHR 0xA7, CHR 0xD9, CHR 0x84, CHR 0xD9, CHR 0x86, CHR 0xD9, CHR 0x82, CHR 0xD8, CHR 0xA7] @
     [CHR 0xD8, CHR 0xB7] @
     '' '' @
     [CHR 0xD8, CHR 0xA7, CHR 0xD9, CHR 0x84, CHR 0xD8, CHR 0xB1, CHR 0xD8, CHR 0xA6, CHR 0xD9, CHR 0x8A] @
     [CHR 0xD8, CHR 0xB3, CHR 0xD9, CHR 0x8A, CHR 0xD8, CHR 0xA9] @
     '' '' @
     [CHR 0xD9, CHR 0x85, CHR 0xD8, CHR 0xB9] @
     '' '' @
     [CHR 0xD8, CHR 0xA7, CHR 0xD9, CHR 0x84, CHR 0xD8, CHR 0xAD, CHR 0xD9, CHR 0x81, CHR 0xD8, CHR 0xA7] @
     [CHR 0xD8, CHR 0xB8] @
     '' '' @
     [CHR 0xD8, CHR 0xB9, CHR 0xD9, CHR 0x84, CHR 0xD9, CHR 0x89] @
     '' '' @
     [CHR 0xD8, CHR 0xA7, CHR 0xD9, CHR 0x84, CHR 0xD8, CHR 0xB3, CHR 0xD9, CHR 0x8A, CHR 0xD8, CHR 0xA7] @
     [CHR 0xD9, CHR 0x82] @
     '' '' @
     [CHR 0xD9, CHR 0x88, CHR 0xD8, CHR 0xA7, CHR 0xD9, CHR 0x84, CHR 0xD8, CHR 0xAA, CHR 0xD9, CHR 0x81] @
     [CHR 0xD8, CHR 0xA7, CHR 0xD8, CHR 0xB5, CHR 0xD9, CHR 0x8A, CHR 0xD9, CHR 0x84] @
     '' '' @
     [CHR 0xD8, CHR 0xA7, CHR 0xD9, CHR 0x84, CHR 0xD8, CHR 0xA3, CHR 0xD8, CHR 0xB3, CHR 0xD8, CHR 0xA7] @
     [CHR 0xD8, CHR 0xB3, CHR 0xD9, CHR 0x8A, CHR 0xD8, CHR 0xA9] @
     ''. '' @
     [CHR 0xD9, CHR 0x82, CHR 0xD9, CHR 0x85] @
     '' '' @
     [CHR 0xD8, CHR 0xA8, CHR 0xD8, CHR 0xAA, CHR 0xD9, CHR 0x86, CHR 0xD8, CHR 0xB3, CHR 0xD9, CHR 0x8A] @
     [CHR 0xD9, CHR 0x82] @
     '' '' @
     [CHR 0xD8, CHR 0xA7, CHR 0xD9, CHR 0x84, CHR 0xD9, CHR 0x85, CHR 0xD9, CHR 0x84, CHR 0xD8, CHR 0xAE] @
     [CHR 0xD8, CHR 0xB5] @
     '' '' @
     [CHR 0xD8, CHR 0xA8, CHR 0xD8, CHR 0xB7, CHR 0xD8, CHR 0xB1, CHR 0xD9, CHR 0x8A, CHR 0xD9, CHR 0x82] @
     [CHR 0xD8, CHR 0xA9] @
     '' '' @
     [CHR 0xD9, CHR 0x88, CHR 0xD8, CHR 0xA7, CHR 0xD8, CHR 0xB6, CHR 0xD8, CHR 0xAD, CHR 0xD8, CHR 0xA9] @
     '' '' @
     [CHR 0xD9, CHR 0x88, CHR 0xD8, CHR 0xB3, CHR 0xD9, CHR 0x87, CHR 0xD9, CHR 0x84, CHR 0xD8, CHR 0xA9] @
     '' '' @
     [CHR 0xD8, CHR 0xA7, CHR 0xD9, CHR 0x84, CHR 0xD9, CHR 0x82, CHR 0xD8, CHR 0xB1, CHR 0xD8, CHR 0xA7] @
     [CHR 0xD8, CHR 0xA1, CHR 0xD8, CHR 0xA9] @
     '' '' @
     [CHR 0xD9, CHR 0x85, CHR 0xD8, CHR 0xB9] @
     '' '' @
     [CHR 0xD9, CHR 0x86, CHR 0xD9, CHR 0x82, CHR 0xD8, CHR 0xA7, CHR 0xD8, CHR 0xB7] @
     '' '' @
     [CHR 0xD8, CHR 0xB1, CHR 0xD8, CHR 0xA6, CHR 0xD9, CHR 0x8A, CHR 0xD8, CHR 0xB3, CHR 0xD9, CHR 0x8A] @
     [CHR 0xD8, CHR 0xA9] @
     '' '' @
     [CHR 0xD9, CHR 0x84, CHR 0xD9, CHR 0x84, CHR 0xD9, CHR 0x86, CHR 0xD9, CHR 0x82, CHR 0xD8, CHR 0xA7] @
     [CHR 0xD8, CHR 0xB7] @
     '' '' @
     [CHR 0xD8, CHR 0xA7, CHR 0xD9, CHR 0x84, CHR 0xD8, CHR 0xA3, CHR 0xD8, CHR 0xB3, CHR 0xD8, CHR 0xA7] @
     [CHR 0xD8, CHR 0xB3, CHR 0xD9, CHR 0x8A, CHR 0xD8, CHR 0xA9] @
     ''.''"

definition arabic_translationPrompt :: string where
  "arabic_translationPrompt =
     ''Translate the following text to Arabic, maintaining the bullet '' @
     ''point format and ensuring the translation is natural and fluent. '' @
     ''Ensure proper right-to-left formatting:''"

definition english_profile :: language_profile where
  "english_profile =
     \<lparr>code = ''en'', systemPrompt = english_systemPrompt, translationPrompt = None\<rparr>"

definition bosnian_profile :: language_profile where
  "bosnian_profile =
     \<lparr>code = ''bs'', systemPrompt = bosnian_systemPrompt, translationPrompt = Some bosnian_translationPrompt\<rparr>"

definition german_profile :: language_profile where
  "german_profile =
     \<lparr>code = ''de'', systemPrompt = german_systemPrompt, translationPrompt = Some german_translationPrompt\<rparr>"

definition french_profile :: language_profile where
  "french_profile =
     \<lparr>code = ''fr'', systemPrompt = french_systemPrompt, translationPrompt = Some french_translationPrompt\<rparr>"

definition spanish_profile :: language_profile where
  "spanish_profile =
     \<lparr>code = ''es'', systemPrompt = spanish_systemPrompt, translationPrompt = Some spanish_translationPrompt\<rparr>"

definition italian_profile :: language_profile where
  "italian_profile =
     \<lparr>code = ''it'', systemPrompt = italian_systemPrompt, translationPrompt = Some italian_translationPrompt\<rparr>"

definition turkish_profile :: language_profile where
  "turkish_profile =
     \<lparr>code = ''tr'', systemPrompt = turkish_systemPrompt, translationPrompt = Some turkish_translationPrompt\<rparr>"

definition chinese_profile :: language_profile where
  "chinese_profile =
     \<lparr>code = ''zh'', systemPrompt = chinese_systemPrompt, translationPrompt = Some chinese_translationPrompt\<rparr>"

definition russian_profile :: language_profile where
  "russian_profile =
     \<lparr>code = ''ru'', systemPrompt = russian_systemPrompt, translationPrompt = Some russian_translationPrompt\<rparr>"

definition arabic_profile :: language_profile where
  "arabic_profile =
     \<lparr>code = ''ar'', systemPrompt = arabic_systemPrompt, translationPrompt = Some arabic_translationPrompt\<rparr>"

definition LANGUAGES :: "(string \<times> language_profile) list" where
  "LANGUAGES =
     [(''english'', english_profile),
      (''bosnian'', bosnian_profile),
      (''german'', german_profile),
      (''french'', french_profile),
      (''spanish'', spanish_profile),
      (''italian'', italian_profile),
      (''turkish'', turkish_profile),
      (''chinese'', chinese_profile),
      (''russian'', russian_profile),
      (''arabic'', arabic_profile)]"

subsection \<open>Summary length configurations\<close>

record length_profile =
  instruction :: string
  maxTokens :: nat

definition lengthConfigs :: "(string \<times> length_profile) list" where
  "lengthConfigs =
     [(''short'',
       \<lparr>instruction =
          ''Create a very brief summary in 2-3 bullet points, focusing only on '' @
          ''the most crucial information.'',
        maxTokens = 200\<rparr>),
      (''medium'',
       \<lparr>instruction =
          ''Provide a balanced summary with 4-5 bullet points, covering the main '' @
          ''points and key supporting details.'',
        maxTokens = 350\<rparr>),
      (''detailed'',
       \<lparr>instruction =
          ''Create a comprehensive summary with 6-8 bullet points, including main '' @
          ''points, supporting details, and relevant context.'',
        maxTokens = 500\<rparr>)]"

subsection \<open>\<^verbatim>\<open>extractArticleContent\<close>\<close>

text \<open>
  Everything inside the \<^verbatim>\<open>try\<close> block that throws is replaced by one error; a page
  without an article gives the empty string.
\<close>

definition extractArticleContent :: "'dom env \<Rightarrow> string \<Rightarrow> string io" where
  "extractArticleContent env u =
     io_catch
       (io_bind (io_call (HttpGet u) (axios_get env u)) (\<lambda>data.
        io_bind (io_local (jsdom env data)) (\<lambda>dom.
        io_bind (io_local (readability_parse env dom)) (\<lambda>article.
        io_return (case article of Some textContent \<Rightarrow> textContent | None \<Rightarrow> '''')))))
       (\<lambda>e. io_throw ''Failed to extract article content'')"

subsection \<open>\<^verbatim>\<open>translateText\<close>\<close>

definition translation_request :: "string \<Rightarrow> string option \<Rightarrow> chat_request" where
  "translation_request prompt text =
     \<lparr>messages =
        [(''system'',
          ''You are a professional translator. Provide accurate translations while '' @
          ''maintaining the original format and style.''),
         (''user'', prompt @ newline @ newline @ template_null text)],
      model = ''gpt-4-turbo-preview'',
      temperature = 3 / 10,
      max_tokens = Some 1000\<rparr>"

text \<open>
  The test of the translation prompt stands before the \<^verbatim>\<open>try\<close> block, so a
  \<^verbatim>\<open>TypeError\<close> raised there is thrown as it is. A prompt that is \<^verbatim>\<open>null\<close>,
  \<^verbatim>\<open>undefined\<close> or empty is falsy.
\<close>

definition translateText :: "'dom env \<Rightarrow> string option \<Rightarrow> string \<Rightarrow> string option io" where
  "translateText env text lang =
     io_bind (io_local (js_field translationPrompt ''translationPrompt'' (js_get LANGUAGES lang)))
       (\<lambda>p. case p of
               Some (Some prompt) \<Rightarrow>
                 if prompt = [] then io_return text
                 else io_catch
                        (io_bind
                           (io_call (ChatCreate (translation_request prompt text))
                              (chat_create env (translation_request prompt text)))
                           (\<lambda>choices. io_local (first_content choices)))
                        (\<lambda>e. io_throw ''Failed to translate the summary'')
             | _ \<Rightarrow> io_return text)"

subsection \<open>The \<^verbatim>\<open>POST /summarize\<close> route\<close>

definition summary_request :: "bool \<Rightarrow> string option \<Rightarrow> nat option \<Rightarrow> string \<Rightarrow> chat_request" where
  "summary_request is_english instr limit articleContent =
     \<lparr>messages =
        [(''system'',
          if is_english then systemPrompt english_profile
          else systemPrompt english_profile @ newline @ newline @
               ''Generate the summary in English first, it will be translated afterward.''),
         (''user'',
          template_undefined instr @ newline @ newline @
          ''Please summarize this news article:'' @ newline @ newline @ articleContent)],
      model = ''gpt-4-turbo-preview'',
      temperature = 7 / 10,
      max_tokens = limit\<rparr>"

text \<open>The body of the route's \<^verbatim>\<open>try\<close> block.\<close>

definition summarize_try :: "'dom env \<Rightarrow> request_body \<Rightarrow> response io" where
  "summarize_try env body =
     (let lang = requested_language body; len = requested_length body
      in case url body of
           None \<Rightarrow> io_return (Response 400 (ErrorBody ''URL is required''))
         | Some u \<Rightarrow>
             if u = [] then io_return (Response 400 (ErrorBody ''URL is required''))
             else if \<not> truthy_object (js_get LANGUAGES lang)
               then io_return (Response 400 (ErrorBody ''Invalid language selected''))
             else if \<not> truthy_object (js_get lengthConfigs len)
               then io_return (Response 400 (ErrorBody ''Invalid summary length selected''))
             else
               io_bind (extractArticleContent env u) (\<lambda>articleContent.
                 if articleContent = []
                 then io_return (Response 400 (ErrorBody ''Could not extract article content''))
                 else
                   io_bind (io_local (js_field instruction ''instruction'' (js_get lengthConfigs len))) (\<lambda>instr.
                   io_bind (io_local (js_field maxTokens ''maxTokens'' (js_get lengthConfigs len))) (\<lambda>limit.
                   io_bind
                     (io_call (ChatCreate (summary_request (lang = ''english'') instr limit articleContent))
                        (chat_create env (summary_request (lang = ''english'') instr limit articleContent)))
                     (\<lambda>choices.
                   io_bind (io_local (first_content choices)) (\<lambda>englishSummary.
                   io_bind (translateText env englishSummary lang) (\<lambda>finalSummary.
                   io_return (Response 200 (SummaryBody finalSummary)))))))))"

text \<open>The route: whatever the block throws is answered with status 500.\<close>

definition summarize_route :: "'dom env \<Rightarrow> request_body \<Rightarrow> response \<times> call list" where
  "summarize_route env body =
     (case summarize_try env body of
        (Inl message, t) \<Rightarrow>
          (Response 500 (ErrorDetailsBody ''Failed to generate summary'' message), t)
      | (Inr res, t) \<Rightarrow> (res, t))"


section \<open>The one-call server (\<^verbatim>\<open>src/server/index.js\<close>)\<close>

subsection \<open>Language prompts\<close>

definition english_prompt :: string where
  "english_prompt =
     ''Please provide a summary in English.''"

definition bosnian_prompt :: string where
  "bosnian_prompt =
     ''Molimo vas da sa'' @
     [CHR 0xC5, CHR 0xBE] @
     ''etak dostavite na bosanskom/srpskom/hrvatskom jeziku.''"

definition german_prompt :: string where
  "german_prompt =
     ''Bitte geben Sie eine Zusammenfassung auf Deutsch.''"

definition french_prompt :: string where
  "french_prompt =
     ''Veuillez fournir un r'' @
     [CHR 0xC3, CHR 0xA9] @
     ''sum'' @
     [CHR 0xC3, CHR 0xA9] @
     '' en fran'' @
     [CHR 0xC3, CHR 0xA7] @
     ''ais.''"

definition spanish_prompt :: string where
  "spanish_prompt =
     ''Por favor, proporcione un resumen en espa'' @
     [CHR 0xC3, CHR 0xB1] @
     ''ol.''"

definition italian_prompt :: string where
  "italian_prompt =
     ''Si prega di fornire un riassunto in italiano.''"

definition turkish_prompt :: string where
  "turkish_prompt =
     ''L'' @
     [CHR 0xC3, CHR 0xBC] @
     ''tfen T'' @
     [CHR 0xC3, CHR 0xBC] @
     ''rk'' @
     [CHR 0xC3, CHR 0xA7] @
     ''e bir '' @
     [CHR 0xC3, CHR 0xB6] @
     ''zet sa'' @
     [CHR 0xC4, CHR 0x9F] @
     ''lay'' @
     [CHR 0xC4, CHR 0xB1] @
     ''n.''"

definition chinese_prompt :: string where
  "chinese_prompt =
     [CHR 0xE8, CHR 0xAF, CHR 0xB7, CHR 0xE7, CHR 0x94, CHR 0xA8, CHR 0xE4, CHR 0xB8, CHR 0xAD, CHR 0xE6] @
     [CHR 0x96, CHR 0x87, CHR 0xE6, CHR 0x8F, CHR 0x90, CHR 0xE4, CHR 0xBE, CHR 0x9B, CHR 0xE6, CHR 0x91] @
     [CHR 0x98, CHR 0xE8, CHR 0xA6, CHR 0x81, CHR 0xE3, CHR 0x80, CHR 0x82]"

definition russian_prompt :: string where
  "russian_prompt =
     [CHR 0xD0, CHR 0x9F, CHR 0xD0, CHR 0xBE, CHR 0xD0, CHR 0xB6, CHR 0xD0, CHR 0xB0, CHR 0xD0, CHR 0xBB] @
     [CHR 0xD1, CHR 0x83, CHR 0xD0, CHR 0xB9, CHR 0xD1, CHR 0x81, CHR 0xD1, CHR 0x82, CHR 0xD0, CHR 0xB0] @
     '', '' @
     [CHR 0xD0, CHR 0xBF, CHR 0xD1, CHR 0x80, CHR 0xD0, CHR 0xB5, CHR 0xD0, CHR 0xB4, CHR 0xD0, CHR 0xBE] @
     [CHR 0xD1, CHR 0x81, CHR 0xD1, CHR 0x82, CHR 0xD0, CHR 0xB0, CHR 0xD0, CHR 0xB2, CHR 0xD1, CHR 0x8C] @
     [CHR 0xD1, CHR 0x82, CHR 0xD0, CHR 0xB5] @
     '' '' @
     [CHR 0xD0, CHR 0xBA, CHR 0xD1, CHR 0x80, CHR 0xD0, CHR 0xB0, CHR 0xD1, CHR 0x82, CHR 0xD0, CHR 0xBA] @
     [CHR 0xD0, CHR 0xBE, CHR 0xD0, CHR 0xB5] @
     '' '' @
     [CHR 0xD1, CHR 0x81, CHR 0xD0, CHR 0xBE, CHR 0xD0, CHR 0xB4, CHR 0xD0, CHR 0xB5, CHR 0xD1, CHR 0x80] @
     [CHR 0xD0, CHR 0xB6, CHR 0xD0, CHR 0xB0, CHR 0xD0, CHR 0xBD, CHR 0xD0, CHR 0xB8, CHR 0xD0, CHR 0xB5] @
     '' '' @
     [CHR 0xD0, CHR 0xBD, CHR 0xD0, CHR 0xB0] @
     '' '' @
     [CHR 0xD1, CHR 0x80, CHR 0xD1, CHR 0x83, CHR 0xD1, CHR 0x81, CHR 0xD1, CHR 0x81, CHR 0xD0, CHR 0xBA] @
     [CHR 0xD0, CHR 0xBE, CHR 0xD0, CHR 0xBC] @
     '' '' @
     [CHR 0xD1, CHR 0x8F, CHR 0xD0, CHR 0xB7, CHR 0xD1, CHR 0x8B, CHR 0xD0, CHR 0xBA, CHR 0xD0, CHR 0xB5] @
     ''.''"

definition arabic_prompt :: string where
  "arabic_prompt =
     [CHR 0xD9, CHR 0x8A, CHR 0xD8, CHR 0xB1, CHR 0xD8, CHR 0xAC, CHR 0xD9, CHR 0x89] @
     '' '' @
     [CHR 0xD8, CHR 0xAA, CHR 0xD9, CHR 0x82, CHR 0xD8, CHR 0xAF, CHR 0xD9, CHR 0x8A, CHR 0xD9, CHR 0x85] @
     '' '' @
     [CHR 0xD9, CHR 0x85, CHR 0xD9, CHR 0x84, CHR 0xD8, CHR 0xAE, CHR 0xD8, CHR 0xB5] @
     '' '' @
     [CHR 0xD8, CHR 0xA8, CHR 0xD8, CHR 0xA7, CHR 0xD9, CHR 0x84, CHR 0xD9, CHR 0x84, CHR 0xD8, CHR 0xBA] @
     [CHR 0xD8, CHR 0xA9] @
     '' '' @
     [CHR 0xD8, CHR 0xA7, CHR 0xD9, CHR 0x84, CHR 0xD8, CHR 0xB9, CHR 0xD8, CHR 0xB1, CHR 0xD8, CHR 0xA8] @
     [CHR 0xD9, CHR 0x8A, CHR 0xD8, CHR 0xA9] @
     ''.''"

definition LANGUAGE_PROMPTS :: "(string \<times> string) list" where
  "LANGUAGE_PROMPTS =
     [(''english'', english_prompt),
      (''bosnian'', bosnian_prompt),
      (''german'', german_prompt),
      (''french'', french_prompt),
      (''spanish'', spanish_prompt),
      (''italian'', italian_prompt),
      (''turkish'', turkish_prompt),
      (''chinese'', chinese_prompt),
      (''russian'', russian_prompt),
      (''arabic'', arabic_prompt)]"

subsection \<open>Summary length configurations\<close>

definition SUMMARY_LENGTHS :: "(string \<times> length_profile) list" where
  "SUMMARY_LENGTHS =
     [(''short'',
       \<lparr>instruction = ''Provide a very concise summary with 2-3 key points.'',
        maxTokens = 100\<rparr>),
      (''medium'',
       \<lparr>instruction = ''Provide a balanced summary with 4-5 key points.'',
        maxTokens = 200\<rparr>),
      (''detailed'',
       \<lparr>instruction = ''Provide a comprehensive summary with 6-8 key points.'',
        maxTokens = 400\<rparr>)]"

subsection \<open>\<^verbatim>\<open>extractArticleContent\<close>\<close>

text \<open>
  This variant removes the unwanted elements before the readability pass, reads
  \<^verbatim>\<open>textContent\<close> without testing the article (a \<^verbatim>\<open>TypeError\<close> on \<^verbatim>\<open>null\<close>,
  caught like every other error of the block) and trims the text.
\<close>

definition server_extractArticleContent :: "'dom env \<Rightarrow> string \<Rightarrow> string io" where
  "server_extractArticleContent env u =
     io_catch
       (io_bind (io_call (HttpGet u) (axios_get env u)) (\<lambda>data.
        io_bind (io_local (jsdom env data)) (\<lambda>dom.
        io_bind (io_local (remove_unwanted env dom)) (\<lambda>document.
        io_bind (io_local (readability_parse env document)) (\<lambda>article.
          case article of
            None \<Rightarrow> io_throw (cannot_read ''null'' ''textContent'')
          | Some textContent \<Rightarrow> io_return (trim textContent))))))
       (\<lambda>e. io_throw
          ''Failed to extract article content. Please check the URL and try again.'')"

subsection \<open>The \<^verbatim>\<open>POST /summarize\<close> route\<close>

text \<open>\<^verbatim>\<open>LANGUAGE_PROMPTS[language]\<close> interpolated into the prompt.\<close>

definition property_to_string :: "string property \<Rightarrow> string" where
  "property_to_string p =
     (case p of
        Own s \<Rightarrow> s
      | Inherited k \<Rightarrow> inherited_to_string k
      | NoProperty \<Rightarrow> ''undefined'')"

definition server_prompt :: "string property \<Rightarrow> string option \<Rightarrow> string \<Rightarrow> string" where
  "server_prompt language_prompt instr articleContent =
     property_to_string language_prompt @ newline @ newline @
     template_undefined instr @ newline @ newline @
     ''Article content:'' @ newline @ articleContent"

definition server_request :: "string \<Rightarrow> nat option \<Rightarrow> chat_request" where
  "server_request prompt limit =
     \<lparr>messages =
        [(''system'',
          ''You are a professional news summarizer. Provide clear, accurate, and '' @
          ''well-structured summaries.''),
         (''user'', prompt)],
      model = ''gpt-3.5-turbo'',
      temperature = 7 / 10,
      max_tokens = limit\<rparr>"

text \<open>\<^verbatim>\<open>content.trim()\<close>: a \<^verbatim>\<open>TypeError\<close> when the content is \<^verbatim>\<open>null\<close>.\<close>

definition trim_content :: "string option \<Rightarrow> error + string" where
  "trim_content c =
     (case c of None \<Rightarrow> Inl (cannot_read ''null'' ''trim'') | Some s \<Rightarrow> Inr (trim s))"

definition server_summarize_try :: "'dom env \<Rightarrow> request_body \<Rightarrow> response io" where
  "server_summarize_try env body =
     (let lang = requested_language body; len = requested_length body
      in case url body of
           None \<Rightarrow> io_return (Response 400 (ErrorBody ''URL is required''))
         | Some u \<Rightarrow>
             if u = [] then io_return (Response 400 (ErrorBody ''URL is required''))
             else if \<not> truthy_string (js_get LANGUAGE_PROMPTS lang)
               then io_return (Response 400 (ErrorBody ''Invalid language selected''))
             else if \<not> truthy_object (js_get SUMMARY_LENGTHS len)
               then io_return (Response 400 (ErrorBody ''Invalid summary length selected''))
             else
               io_bind (server_extractArticleContent env u) (\<lambda>articleContent.
               io_bind (io_local (js_field instruction ''instruction'' (js_get SUMMARY_LENGTHS len))) (\<lambda>instr.
               io_bind (io_local (js_field maxTokens ''maxTokens'' (js_get SUMMARY_LENGTHS len))) (\<lambda>limit.
               io_bind
                 (io_call
                    (ChatCreate
                       (server_request
                          (server_prompt (js_get LANGUAGE_PROMPTS lang) instr articleContent) limit))
                    (chat_create env
                       (server_request
                          (server_prompt (js_get LANGUAGE_PROMPTS lang) instr articleContent) limit)))
                 (\<lambda>choices.
               io_bind (io_local (first_content choices)) (\<lambda>content.
               io_bind (io_local (trim_content content)) (\<lambda>summary.
               io_return (Response 200 (SummaryBody (Some summary))))))))))"

definition server_summarize_route :: "'dom env \<Rightarrow> request_body \<Rightarrow> response \<times> call list" where
  "server_summarize_route env body =
     (case server_summarize_try env body of
        (Inl message, t) \<Rightarrow>
          (Response 500 (ErrorDetailsBody ''Failed to generate summary'' message), t)
      | (Inr res, t) \<Rightarrow> (res, t))"


section \<open>Sample environments\<close>

text \<open>
  Concrete worlds on which the theorems below are exercised: a page with an article and
  a model that answers, and variants of it where one collaborator fails. The document is
  held as its text.
\<close>

definition sample_env :: "string env" where
  "sample_env =
     \<lparr>axios_get = (\<lambda>u. Inr ''<html><body><article>Rain is expected.</article></body></html>''),
      jsdom = (\<lambda>data. Inr data),
      remove_unwanted = (\<lambda>dom. Inr dom),
      readability_parse = (\<lambda>dom. Inr (Some ''Rain is expected.'')),
      chat_create = (\<lambda>req. Inr [Some ''- Rain is expected.''])\<rparr>"

definition offline_env :: "string env" where
  "offline_env = sample_env\<lparr>axios_get := (\<lambda>u. Inl ''getaddrinfo ENOTFOUND'')\<rparr>"

definition no_article_env :: "string env" where
  "no_article_env = sample_env\<lparr>readability_parse := (\<lambda>dom. Inr None)\<rparr>"

definition blank_article_env :: "string env" where
  "blank_article_env = sample_env\<lparr>readability_parse := (\<lambda>dom. Inr (Some '' ''))\<rparr>"

definition empty_article_env :: "string env" where
  "empty_article_env = sample_env\<lparr>readability_parse := (\<lambda>dom. Inr (Some ''''))\<rparr>"

definition backend_down_env :: "string env" where
  "backend_down_env = sample_env\<lparr>chat_create := (\<lambda>req. Inl ''401 Incorrect API key provided'')\<rparr>"

text \<open>Only the translation request asks for 1000 tokens.\<close>

definition translation_down_env :: "string env" where
  "translation_down_env =
     sample_env\<lparr>chat_create :=
       (\<lambda>req. if max_tokens req = Some 1000 then Inl ''429 Rate limit reached''
              else Inr [Some ''- Rain is expected.''])\<rparr>"

definition sample_body :: request_body where
  "sample_body = \<lparr>url = Some ''https://example.com/a'', language = None, summaryLength = None\<rparr>"

definition german_body :: request_body where
  "german_body = sample_body\<lparr>language := Some ''german''\<rparr>"

section \<open>Properties\<close>

subsection \<open>Running the combinators\<close>

lemma io_simps:
  "io_bind (Inl e, t) f = (Inl e, t)"
  "io_bind (Inr x, t) f = (fst (f x), t @ snd (f x))"
  "io_catch (Inl e, t) h = (fst (h e), t @ snd (h e))"
  "io_catch (Inr x, t) h = (Inr x, t)"
  "io_return x = (Inr x, [])"
  "io_throw e = (Inl e, [])"
  "io_local r = (r, [])"
  "io_call c r = (r, [c])"
  by (simp_all add: io_bind_def io_catch_def io_return_def io_throw_def io_local_def
      io_call_def split: prod.splits)

lemma io_bind_alt:
  "io_bind m f =
     (case fst m of Inl e \<Rightarrow> (Inl e, snd m) | Inr x \<Rightarrow> (fst (f x), snd m @ snd (f x)))"
  by (cases m; cases "fst m") (simp_all add: io_bind_def split: prod.splits)


lemmas sample_defs =
  sample_env_def offline_env_def no_article_env_def blank_article_env_def
  empty_article_env_def backend_down_env_def translation_down_env_def sample_body_def

lemmas run_defs =
  summarize_route_def summarize_try_def server_summarize_route_def server_summarize_try_def
  requested_language_def requested_length_def extractArticleContent_def
  server_extractArticleContent_def translateText_def js_get_def js_field_def
  truthy_object_def truthy_string_def first_content_def trim_content_def
  io_simps object_prototype_keys_def

subsection \<open>The registries\<close>

lemma truthy_object_iff: "truthy_object p \<longleftrightarrow> p \<noteq> NoProperty"
  by (cases p) (simp_all add: truthy_object_def)

lemma LANGUAGE_PROMPTS_truthy:
  "truthy_string (js_get LANGUAGE_PROMPTS k) \<longleftrightarrow> js_get LANGUAGE_PROMPTS k \<noteq> NoProperty"
  by (auto simp add: truthy_string_def js_get_def LANGUAGE_PROMPTS_def
      english_prompt_def bosnian_prompt_def german_prompt_def french_prompt_def
      spanish_prompt_def italian_prompt_def turkish_prompt_def chinese_prompt_def
      russian_prompt_def arabic_prompt_def split: option.splits if_splits)

lemma translationPrompt_nonempty:
  "js_get LANGUAGES k = Own p \<Longrightarrow> translationPrompt p = Some tp \<Longrightarrow> tp \<noteq> []"
  by (auto simp add: js_get_def LANGUAGES_def
      english_profile_def bosnian_profile_def german_profile_def french_profile_def
      spanish_profile_def italian_profile_def turkish_profile_def chinese_profile_def
      russian_profile_def arabic_profile_def
      bosnian_translationPrompt_def german_translationPrompt_def
      french_translationPrompt_def spanish_translationPrompt_def
      italian_translationPrompt_def turkish_translationPrompt_def
      chinese_translationPrompt_def russian_translationPrompt_def
      arabic_translationPrompt_def split: option.splits if_splits)

lemma non_base_not_english:
  "js_get LANGUAGES k = Own p \<Longrightarrow> translationPrompt p = Some tp \<Longrightarrow> k \<noteq> ''english''"
  by (auto simp add: js_get_def LANGUAGES_def english_profile_def)

lemma js_field_found:
  "p \<noteq> NoProperty \<Longrightarrow>
   js_field f name p = Inr (case p of Own v \<Rightarrow> Some (f v) | _ \<Rightarrow> None)"
  by (cases p) (simp_all add: js_field_def)

lemma js_field_Inr_found: "js_field f name p = Inr v \<Longrightarrow> p \<noteq> NoProperty"
  by (cases p) (simp_all add: js_field_def)

lemma js_field_Inr_value:
  "js_field f name p = Inr v \<Longrightarrow> (case p of Own x \<Rightarrow> Some (f x) | _ \<Rightarrow> None) = v"
  by (cases p) (simp_all add: js_field_def)

text \<open>
  C8. In both length registries the tiers are short, medium, detailed, in this order,
  and the ceiling on output tokens grows strictly from each tier to the next.
\<close>

theorem length_ceilings_increase:
  "map fst lengthConfigs = [''short'', ''medium'', ''detailed''] \<and>
   sorted_wrt (<) (map (\<lambda>(k, p). maxTokens p) lengthConfigs) \<and>
   map fst SUMMARY_LENGTHS = [''short'', ''medium'', ''detailed''] \<and>
   sorted_wrt (<) (map (\<lambda>(k, p). maxTokens p) SUMMARY_LENGTHS)"
  by (simp add: lengthConfigs_def SUMMARY_LENGTHS_def)

subsection \<open>Extraction\<close>

text \<open>
  Whatever happens, extraction makes exactly one network call, the fetch, and its only
  error is the one of its \<^verbatim>\<open>catch\<close> block.
\<close>

lemma extractArticleContent_cases:
  "extractArticleContent env u = (Inl ''Failed to extract article content'', [HttpGet u]) \<or>
   (\<exists>a. extractArticleContent env u = (Inr a, [HttpGet u]))"
  by (cases "axios_get env u"; cases "jsdom env (projr (axios_get env u))";
      cases "readability_parse env (projr (jsdom env (projr (axios_get env u))))")
     (simp_all add: extractArticleContent_def io_simps)

lemma server_extractArticleContent_cases:
  "server_extractArticleContent env u =
     (Inl ''Failed to extract article content. Please check the URL and try again.'', [HttpGet u]) \<or>
   (\<exists>a. server_extractArticleContent env u = (Inr a, [HttpGet u]))"
  by (cases "axios_get env u"; cases "jsdom env (projr (axios_get env u))";
      cases "remove_unwanted env (projr (jsdom env (projr (axios_get env u))))";
      cases "readability_parse env (projr (remove_unwanted env (projr (jsdom env (projr (axios_get env u))))))")
     (auto simp add: server_extractArticleContent_def io_simps split: option.splits)

lemma extractArticleContent_trace: "snd (extractArticleContent env u) = [HttpGet u]"
  using extractArticleContent_cases [of env u] by auto

lemma extractArticleContent_message:
  "fst (extractArticleContent env u) = Inl e \<Longrightarrow> e = ''Failed to extract article content''"
  using extractArticleContent_cases [of env u] by auto

lemma server_extractArticleContent_trace: "snd (server_extractArticleContent env u) = [HttpGet u]"
  using server_extractArticleContent_cases [of env u] by auto

lemma server_extractArticleContent_message:
  "fst (server_extractArticleContent env u) = Inl e \<Longrightarrow>
   e = ''Failed to extract article content. Please check the URL and try again.''"
  using server_extractArticleContent_cases [of env u] by auto

subsection \<open>Translation\<close>

lemma summary_and_translation_requests_differ:
  "summary_request is_english instr limit articleContent \<noteq> translation_request prompt text"
  by (simp add: summary_request_def translation_request_def)

lemma translateText_prompt:
  assumes "js_get LANGUAGES lang = Own p" and "translationPrompt p = Some tp" and "tp \<noteq> []"
  shows "translateText env text lang =
      (case chat_create env (translation_request tp text) of
         Inl e \<Rightarrow> Inl ''Failed to translate the summary''
       | Inr [] \<Rightarrow> Inl ''Failed to translate the summary''
       | Inr (c # cs) \<Rightarrow> Inr c,
       [ChatCreate (translation_request tp text)])"
  using assms
  by (cases "chat_create env (translation_request tp text)")
     (simp_all add: translateText_def js_field_def io_simps first_content_def split: list.splits)


text \<open>
  C4. Translating for a language whose profile has no translation prompt (the base
  language) gives the text back unchanged, whatever the text is, and makes no network
  call.
\<close>

theorem translateText_base_language:
  assumes "js_get LANGUAGES lang = Own p" and "translationPrompt p = None"
  shows "translateText env text lang = (Inr text, [])"
  using assms by (simp add: translateText_def js_field_def io_simps)

theorem translateText_base_language_witness:
  "js_get LANGUAGES ''english'' = Own english_profile \<and>
   translationPrompt english_profile = None \<and>
   translateText sample_env (Some ''- Rain is expected.'') ''english'' =
     (Inr (Some ''- Rain is expected.''), [])"
proof -
  have a: "js_get LANGUAGES ''english'' = Own english_profile"
    by (simp add: js_get_def LANGUAGES_def)
  have b: "translationPrompt english_profile = None"
    by (simp add: english_profile_def)
  show ?thesis
    using a b translateText_base_language [OF a b, of sample_env "Some ''- Rain is expected.''"]
    by simp
qed

subsection \<open>The routes in normal form\<close>

text \<open>
  A request is rejected before any network call when a validation fails; otherwise the
  route is the sequence of extraction, summarisation and (on the two-call server)
  translation, each step ending the request when it throws.
\<close>

lemma summarize_try_rejected:
  assumes "url body = None \<or> url body = Some [] \<or>
           js_get LANGUAGES (requested_language body) = NoProperty \<or>
           js_get lengthConfigs (requested_length body) = NoProperty"
  shows "\<exists>m. summarize_try env body = (Inr (Response 400 (ErrorBody m)), [])"
  using assms
  by (auto simp add: summarize_try_def truthy_object_iff io_return_def Let_def
      split: option.splits)


lemma summarize_try_validated:
  assumes "url body = Some u" and "u \<noteq> []"
    and "js_get LANGUAGES (requested_language body) \<noteq> NoProperty"
    and "js_get lengthConfigs (requested_length body) = lp" and "lp \<noteq> NoProperty"
    and "req = summary_request (requested_language body = ''english'')
           (case lp of Own v \<Rightarrow> Some (instruction v) | _ \<Rightarrow> None)
           (case lp of Own v \<Rightarrow> Some (maxTokens v) | _ \<Rightarrow> None)"
  shows "summarize_try env body =
     (case fst (extractArticleContent env u) of
        Inl e \<Rightarrow> (Inl e, snd (extractArticleContent env u))
      | Inr a \<Rightarrow>
          if a = []
          then (Inr (Response 400 (ErrorBody ''Could not extract article content'')),
                snd (extractArticleContent env u))
          else (case chat_create env (req a) of
                  Inl e \<Rightarrow> (Inl e, snd (extractArticleContent env u) @ [ChatCreate (req a)])
                | Inr [] \<Rightarrow>
                    (Inl (cannot_read ''undefined'' ''message''),
                     snd (extractArticleContent env u) @ [ChatCreate (req a)])
                | Inr (s # cs) \<Rightarrow>
                    (case fst (translateText env s (requested_language body)) of
                       Inl e \<Rightarrow> Inl e
                     | Inr final \<Rightarrow> Inr (Response 200 (SummaryBody final)),
                     snd (extractArticleContent env u) @
                     ChatCreate (req a) # snd (translateText env s (requested_language body)))))"
  using assms
  by (simp add: summarize_try_def truthy_object_iff js_field_found io_bind_alt Let_def
      io_return_def io_local_def io_call_def first_content_def
      split: sum.splits list.splits)

lemma server_summarize_try_validated:
  assumes "url body = Some u" and "u \<noteq> []"
    and "js_get LANGUAGE_PROMPTS (requested_language body) \<noteq> NoProperty"
    and "js_get SUMMARY_LENGTHS (requested_length body) = lp" and "lp \<noteq> NoProperty"
    and "req = (\<lambda>a. server_request
           (server_prompt (js_get LANGUAGE_PROMPTS (requested_language body))
              (case lp of Own v \<Rightarrow> Some (instruction v) | _ \<Rightarrow> None) a)
           (case lp of Own v \<Rightarrow> Some (maxTokens v) | _ \<Rightarrow> None))"
  shows "server_summarize_try env body =
     (case fst (server_extractArticleContent env u) of
        Inl e \<Rightarrow> (Inl e, snd (server_extractArticleContent env u))
      | Inr a \<Rightarrow>
          (case chat_create env (req a) of
             Inl e \<Rightarrow> Inl e
           | Inr [] \<Rightarrow> Inl (cannot_read ''undefined'' ''message'')
           | Inr (None # cs) \<Rightarrow> Inl (cannot_read ''null'' ''trim'')
           | Inr (Some s # cs) \<Rightarrow> Inr (Response 200 (SummaryBody (Some (trim s)))),
           snd (server_extractArticleContent env u) @ [ChatCreate (req a)]))"
  using assms
  by (simp add: server_summarize_try_def truthy_object_iff LANGUAGE_PROMPTS_truthy
      js_field_found io_bind_alt Let_def io_return_def io_local_def io_call_def
      first_content_def trim_content_def split: sum.splits list.splits option.splits)

lemma summarize_route_alt:
  "summarize_route env body =
      (case fst (summarize_try env body) of
         Inl m \<Rightarrow> Response 500 (ErrorDetailsBody ''Failed to generate summary'' m)
       | Inr res \<Rightarrow> res, snd (summarize_try env body))"
  by (cases "summarize_try env body"; cases "fst (summarize_try env body)")
     (simp_all add: summarize_route_def)

lemma server_summarize_route_alt:
  "server_summarize_route env body =
      (case fst (server_summarize_try env body) of
         Inl m \<Rightarrow> Response 500 (ErrorDetailsBody ''Failed to generate summary'' m)
       | Inr res \<Rightarrow> res, snd (server_summarize_try env body))"
  by (cases "server_summarize_try env body"; cases "fst (server_summarize_try env body)")
     (simp_all add: server_summarize_route_def)





lemma summarize_route_calls:
  assumes "js_get LANGUAGES (requested_language body) = Own p"
    and "translationPrompt p = Some tp"
    and "ChatCreate req \<in> set (snd (summarize_route env body))"
  shows "(\<exists>i l a. req = summary_request False i l a) \<or> (\<exists>s. req = translation_request tp s)"
proof (cases "url body = None \<or> url body = Some [] \<or>
           js_get LANGUAGES (requested_language body) = NoProperty \<or>
           js_get lengthConfigs (requested_length body) = NoProperty")
  case True
  from summarize_try_rejected [OF True, of env] assms(3) show ?thesis
    by (auto simp add: summarize_route_alt)
next
  case False
  then obtain u where u: "url body = Some u" "u \<noteq> []" by auto
  from False have l: "js_get LANGUAGES (requested_language body) \<noteq> NoProperty"
    and n: "js_get lengthConfigs (requested_length body) \<noteq> NoProperty" by auto
  have e: "(requested_language body = ''english'') = False"
    using non_base_not_english [OF assms(1,2)] by simp
  have tr: "snd (translateText env s (requested_language body)) =
      [ChatCreate (translation_request tp s)]" for s
    by (simp add: translateText_prompt [OF assms(1,2) translationPrompt_nonempty [OF assms(1,2)]])
  show ?thesis
    using assms(3)
    unfolding summarize_route_alt summarize_try_validated [OF u l refl n refl]
    by (auto simp add: e tr extractArticleContent_trace split: sum.splits if_splits list.splits)
qed

subsection \<open>Validation\<close>

text \<open>
  C9. On both servers a body without the language field is answered as the same body
  with language english, and a body without the summaryLength field as the same body
  with summaryLength medium: the response and the network calls are the same.
\<close>

theorem omitted_fields_take_defaults:
  "summarize_route env (body\<lparr>language := None\<rparr>) =
     summarize_route env (body\<lparr>language := Some ''english''\<rparr>) \<and>
   summarize_route env (body\<lparr>summaryLength := None\<rparr>) =
     summarize_route env (body\<lparr>summaryLength := Some ''medium''\<rparr>) \<and>
   server_summarize_route env (body\<lparr>language := None\<rparr>) =
     server_summarize_route env (body\<lparr>language := Some ''english''\<rparr>) \<and>
   server_summarize_route env (body\<lparr>summaryLength := None\<rparr>) =
     server_summarize_route env (body\<lparr>summaryLength := Some ''medium''\<rparr>)"
  by (simp add: summarize_route_def summarize_try_def server_summarize_route_def
      server_summarize_try_def requested_language_def requested_length_def)

text \<open>
  The order of the tests, on both servers. A url that is missing or empty is answered
  with 400 \<^verbatim>\<open>URL is required\<close> whatever the other two fields are. With a url
  present, a language key for which the registry has no property at all, own or
  inherited, is answered with 400 \<^verbatim>\<open>Invalid language selected\<close> whatever the length
  key is. No network call is made.
\<close>

theorem validation_precedence:
  "(url body = None \<or> url body = Some '''' \<longrightarrow>
      summarize_route env body = (Response 400 (ErrorBody ''URL is required''), []) \<and>
      server_summarize_route env body = (Response 400 (ErrorBody ''URL is required''), [])) \<and>
   (url body = Some u \<and> u \<noteq> '''' \<and> js_get LANGUAGES (requested_language body) = NoProperty \<longrightarrow>
      summarize_route env body = (Response 400 (ErrorBody ''Invalid language selected''), [])) \<and>
   (url body = Some u \<and> u \<noteq> '''' \<and> js_get LANGUAGE_PROMPTS (requested_language body) = NoProperty \<longrightarrow>
      server_summarize_route env body =
        (Response 400 (ErrorBody ''Invalid language selected''), []))"
  by (auto simp add: summarize_route_def summarize_try_def server_summarize_route_def
      server_summarize_try_def io_simps truthy_object_def truthy_string_def)

theorem validation_precedence_witness:
  "summarize_route sample_env
      \<lparr>url = Some '''', language = Some ''klingon'', summaryLength = Some ''huge''\<rparr> =
     (Response 400 (ErrorBody ''URL is required''), []) \<and>
   server_summarize_route sample_env
      \<lparr>url = Some '''', language = Some ''klingon'', summaryLength = Some ''huge''\<rparr> =
     (Response 400 (ErrorBody ''URL is required''), []) \<and>
   js_get LANGUAGES ''klingon'' = NoProperty \<and>
   js_get LANGUAGE_PROMPTS ''klingon'' = NoProperty \<and>
   js_get lengthConfigs ''huge'' = NoProperty \<and>
   js_get SUMMARY_LENGTHS ''huge'' = NoProperty \<and>
   summarize_route sample_env
      \<lparr>url = Some ''https://example.com/a'', language = Some ''klingon'',
       summaryLength = Some ''huge''\<rparr> =
     (Response 400 (ErrorBody ''Invalid language selected''), []) \<and>
   server_summarize_route sample_env
      \<lparr>url = Some ''https://example.com/a'', language = Some ''klingon'',
       summaryLength = Some ''huge''\<rparr> =
     (Response 400 (ErrorBody ''Invalid language selected''), [])"
proof -
  let ?b0 = "\<lparr>url = Some '''', language = Some ''klingon'', summaryLength = Some ''huge''\<rparr>"
  let ?b1 = "\<lparr>url = Some ''https://example.com/a'', language = Some ''klingon'',
              summaryLength = Some ''huge''\<rparr>"
  have k: "js_get LANGUAGES ''klingon'' = NoProperty"
    "js_get LANGUAGE_PROMPTS ''klingon'' = NoProperty"
    "js_get lengthConfigs ''huge'' = NoProperty"
    "js_get SUMMARY_LENGTHS ''huge'' = NoProperty"
    by (simp_all add: js_get_def LANGUAGES_def LANGUAGE_PROMPTS_def lengthConfigs_def
        SUMMARY_LENGTHS_def object_prototype_keys_def)
  from validation_precedence [of ?b0 sample_env "''''"]
    validation_precedence [of ?b1 sample_env "''https://example.com/a''"] k
  show ?thesis by (simp add: requested_language_def)
qed

text \<open>
  C10. The order above does not reach every unknown language key. The key
  \<^verbatim>\<open>constructor\<close> is no entry of either language registry and \<^verbatim>\<open>huge\<close> is no entry
  of either length registry, so both the language and the length of this body are
  unknown, and the language error is the one due. But \<^verbatim>\<open>constructor\<close> names a property
  inherited from \<^verbatim>\<open>Object.prototype\<close>, the language test lets it through, and in every
  environment both servers answer 400 \<^verbatim>\<open>Invalid summary length selected\<close>, with no
  network call.
\<close>

theorem inherited_language_key_gets_length_error:
  "map_of LANGUAGES ''constructor'' = None \<and>
   map_of LANGUAGE_PROMPTS ''constructor'' = None \<and>
   map_of lengthConfigs ''huge'' = None \<and>
   map_of SUMMARY_LENGTHS ''huge'' = None \<and>
   js_get lengthConfigs ''huge'' = NoProperty \<and>
   js_get SUMMARY_LENGTHS ''huge'' = NoProperty \<and>
   summarize_route env
      \<lparr>url = Some ''https://example.com/a'', language = Some ''constructor'',
       summaryLength = Some ''huge''\<rparr> =
     (Response 400 (ErrorBody ''Invalid summary length selected''), []) \<and>
   server_summarize_route env
      \<lparr>url = Some ''https://example.com/a'', language = Some ''constructor'',
       summaryLength = Some ''huge''\<rparr> =
     (Response 400 (ErrorBody ''Invalid summary length selected''), [])"
  by (simp add: summarize_route_def summarize_try_def server_summarize_route_def
      server_summarize_try_def requested_language_def requested_length_def js_get_def
      truthy_object_def truthy_string_def io_simps object_prototype_keys_def
      LANGUAGES_def LANGUAGE_PROMPTS_def lengthConfigs_def SUMMARY_LENGTHS_def)

text \<open>
  C3. The language check is \<^verbatim>\<open>!LANGUAGES[language]\<close>, and the registry is an object
  literal: the key \<^verbatim>\<open>constructor\<close> is no entry of either registry, yet it names a
  property inherited from \<^verbatim>\<open>Object.prototype\<close>, which is truthy. In every environment
  both servers let such a request through: the fetch is made and the response is not
  the 400 \<^verbatim>\<open>Invalid language selected\<close>. On the sample environment the two-call
  server answers 200 with the English summary, untranslated.
\<close>

theorem inherited_key_passes_validation:
  "map_of LANGUAGES ''constructor'' = None \<and>
   map_of LANGUAGE_PROMPTS ''constructor'' = None \<and>
   (\<exists>res t. summarize_route env (sample_body\<lparr>language := Some ''constructor''\<rparr>) =
        (res, HttpGet ''https://example.com/a'' # t) \<and>
      res \<noteq> Response 400 (ErrorBody ''Invalid language selected'')) \<and>
   (\<exists>res t. server_summarize_route env (sample_body\<lparr>language := Some ''constructor''\<rparr>) =
        (res, HttpGet ''https://example.com/a'' # t) \<and>
      res \<noteq> Response 400 (ErrorBody ''Invalid language selected'')) \<and>
   summarize_route sample_env (sample_body\<lparr>language := Some ''constructor''\<rparr>) =
     (Response 200 (SummaryBody (Some ''- Rain is expected.'')),
      [HttpGet ''https://example.com/a'',
       ChatCreate (summary_request False
          (Some (''Provide a balanced summary with 4-5 bullet points, covering the main '' @
                 ''points and key supporting details.''))
          (Some 350) ''Rain is expected.'')])"
proof -
  let ?b = "sample_body\<lparr>language := Some ''constructor''\<rparr>"
  let ?u = "''https://example.com/a''"
  have h1: "url ?b = Some ?u" and h2: "?u \<noteq> ''''"
    by (simp_all add: sample_body_def)
  have v: "js_get LANGUAGES (requested_language ?b) \<noteq> NoProperty"
    "js_get lengthConfigs (requested_length ?b) \<noteq> NoProperty"
    "js_get LANGUAGE_PROMPTS (requested_language ?b) \<noteq> NoProperty"
    "js_get SUMMARY_LENGTHS (requested_length ?b) \<noteq> NoProperty"
    by (simp_all add: sample_body_def requested_language_def requested_length_def js_get_def
        LANGUAGES_def lengthConfigs_def LANGUAGE_PROMPTS_def SUMMARY_LENGTHS_def
        object_prototype_keys_def)
  have a: "map_of LANGUAGES ''constructor'' = None" "map_of LANGUAGE_PROMPTS ''constructor'' = None"
    by (simp_all add: LANGUAGES_def LANGUAGE_PROMPTS_def)
  have b: "\<exists>res t. summarize_route env ?b = (res, HttpGet ?u # t) \<and>
      res \<noteq> Response 400 (ErrorBody ''Invalid language selected'')"
    unfolding summarize_route_alt summarize_try_validated [OF h1 h2 v(1) refl v(2) refl]
    by (auto simp add: extractArticleContent_trace split: sum.splits list.splits)
  have c: "\<exists>res t. server_summarize_route env ?b = (res, HttpGet ?u # t) \<and>
      res \<noteq> Response 400 (ErrorBody ''Invalid language selected'')"
    unfolding server_summarize_route_alt
      server_summarize_try_validated [OF h1 h2 v(3) refl v(4) refl]
    by (auto simp add: server_extractArticleContent_trace
        split: sum.splits list.splits option.splits)
  have d: "summarize_route sample_env ?b =
     (Response 200 (SummaryBody (Some ''- Rain is expected.'')),
      [HttpGet ?u,
       ChatCreate (summary_request False
          (Some (''Provide a balanced summary with 4-5 bullet points, covering the main '' @
                 ''points and key supporting details.''))
          (Some 350) ''Rain is expected.'')])"
    by (simp add: run_defs sample_defs LANGUAGES_def lengthConfigs_def)
  from a b c d show ?thesis by blast
qed

subsection \<open>Extraction failures\<close>

text \<open>
  C2, as stated, fails: when the fetch fails, the error thrown by extraction reaches the
  route's \<^verbatim>\<open>catch\<close> block, and the response has status 500, not 400.
\<close>

theorem unreachable_article_gives_500:
  "axios_get offline_env ''https://example.com/a'' = Inl ''getaddrinfo ENOTFOUND'' \<and>
   summarize_route offline_env sample_body =
     (Response 500
        (ErrorDetailsBody ''Failed to generate summary'' ''Failed to extract article content''),
      [HttpGet ''https://example.com/a''])"
  by (simp add: run_defs sample_defs LANGUAGES_def lengthConfigs_def)

text \<open>
  C2, amended. For a request that passes validation: when extraction throws (the fetch
  fails, or anything else in its \<^verbatim>\<open>try\<close> block throws), both servers answer 500
  \<^verbatim>\<open>Failed to generate summary\<close> with the extraction message as details; when
  extraction returns the empty string, the two-call server answers 400
  \<^verbatim>\<open>Could not extract article content\<close>. In each case the fetch is the only network
  call: no summarisation and no translation call is made.
\<close>

theorem extraction_failure_response:
  assumes "url body = Some u" and "u \<noteq> ''''"
  shows
   "(js_get LANGUAGES (requested_language body) \<noteq> NoProperty \<and>
     js_get lengthConfigs (requested_length body) \<noteq> NoProperty \<and>
     fst (extractArticleContent env u) = Inl e \<longrightarrow>
       summarize_route env body =
         (Response 500
            (ErrorDetailsBody ''Failed to generate summary''
               ''Failed to extract article content''),
          [HttpGet u])) \<and>
    (js_get LANGUAGES (requested_language body) \<noteq> NoProperty \<and>
     js_get lengthConfigs (requested_length body) \<noteq> NoProperty \<and>
     fst (extractArticleContent env u) = Inr '''' \<longrightarrow>
       summarize_route env body =
         (Response 400 (ErrorBody ''Could not extract article content''), [HttpGet u])) \<and>
    (js_get LANGUAGE_PROMPTS (requested_language body) \<noteq> NoProperty \<and>
     js_get SUMMARY_LENGTHS (requested_length body) \<noteq> NoProperty \<and>
     fst (server_extractArticleContent env u) = Inl e' \<longrightarrow>
       server_summarize_route env body =
         (Response 500
            (ErrorDetailsBody ''Failed to generate summary''
               ''Failed to extract article content. Please check the URL and try again.''),
          [HttpGet u]))"
proof (intro conjI impI)
  assume h: "js_get LANGUAGES (requested_language body) \<noteq> NoProperty \<and>
     js_get lengthConfigs (requested_length body) \<noteq> NoProperty \<and>
     fst (extractArticleContent env u) = Inl e"
  then have l: "js_get LANGUAGES (requested_language body) \<noteq> NoProperty"
    and n: "js_get lengthConfigs (requested_length body) \<noteq> NoProperty"
    and x: "fst (extractArticleContent env u) = Inl e" by simp_all
  show "summarize_route env body =
         (Response 500
            (ErrorDetailsBody ''Failed to generate summary''
               ''Failed to extract article content''),
          [HttpGet u])"
    unfolding summarize_route_alt summarize_try_validated [OF assms l refl n refl]
    using x extractArticleContent_message [OF x]
    by (simp add: extractArticleContent_trace)
next
  assume h: "js_get LANGUAGES (requested_language body) \<noteq> NoProperty \<and>
     js_get lengthConfigs (requested_length body) \<noteq> NoProperty \<and>
     fst (extractArticleContent env u) = Inr ''''"
  then have l: "js_get LANGUAGES (requested_language body) \<noteq> NoProperty"
    and n: "js_get lengthConfigs (requested_length body) \<noteq> NoProperty"
    and x: "fst (extractArticleContent env u) = Inr ''''" by simp_all
  show "summarize_route env body =
         (Response 400 (ErrorBody ''Could not extract article content''), [HttpGet u])"
    unfolding summarize_route_alt summarize_try_validated [OF assms l refl n refl]
    using x by (simp add: extractArticleContent_trace)
next
  assume h: "js_get LANGUAGE_PROMPTS (requested_language body) \<noteq> NoProperty \<and>
     js_get SUMMARY_LENGTHS (requested_length body) \<noteq> NoProperty \<and>
     fst (server_extractArticleContent env u) = Inl e'"
  then have l: "js_get LANGUAGE_PROMPTS (requested_language body) \<noteq> NoProperty"
    and n: "js_get SUMMARY_LENGTHS (requested_length body) \<noteq> NoProperty"
    and x: "fst (server_extractArticleContent env u) = Inl e'" by simp_all
  show "server_summarize_route env body =
         (Response 500
            (ErrorDetailsBody ''Failed to generate summary''
               ''Failed to extract article content. Please check the URL and try again.''),
          [HttpGet u])"
    unfolding server_summarize_route_alt server_summarize_try_validated [OF assms l refl n refl]
    using x server_extractArticleContent_message [OF x]
    by (simp add: server_extractArticleContent_trace)
qed

theorem extraction_failure_response_witness:
  "url sample_body = Some ''https://example.com/a'' \<and>
   js_get LANGUAGES (requested_language sample_body) \<noteq> NoProperty \<and>
   js_get lengthConfigs (requested_length sample_body) \<noteq> NoProperty \<and>
   js_get LANGUAGE_PROMPTS (requested_language sample_body) \<noteq> NoProperty \<and>
   js_get SUMMARY_LENGTHS (requested_length sample_body) \<noteq> NoProperty \<and>
   fst (extractArticleContent offline_env ''https://example.com/a'') =
     Inl ''Failed to extract article content'' \<and>
   fst (server_extractArticleContent offline_env ''https://example.com/a'') =
     Inl ''Failed to extract article content. Please check the URL and try again.'' \<and>
   fst (extractArticleContent no_article_env ''https://example.com/a'') = Inr '''' \<and>
   summarize_route offline_env sample_body =
     (Response 500
        (ErrorDetailsBody ''Failed to generate summary'' ''Failed to extract article content''),
      [HttpGet ''https://example.com/a'']) \<and>
   summarize_route no_article_env sample_body =
     (Response 400 (ErrorBody ''Could not extract article content''),
      [HttpGet ''https://example.com/a'']) \<and>
   server_summarize_route offline_env sample_body =
     (Response 500
        (ErrorDetailsBody ''Failed to generate summary''
           ''Failed to extract article content. Please check the URL and try again.''),
      [HttpGet ''https://example.com/a''])"
proof -
  let ?u = "''https://example.com/a''"
  let ?e = "''Failed to extract article content''"
  let ?e' = "''Failed to extract article content. Please check the URL and try again.''"
  have h1: "url sample_body = Some ?u" and h2: "?u \<noteq> ''''"
    by (simp_all add: sample_body_def)
  have v: "js_get LANGUAGES (requested_language sample_body) \<noteq> NoProperty"
    "js_get lengthConfigs (requested_length sample_body) \<noteq> NoProperty"
    "js_get LANGUAGE_PROMPTS (requested_language sample_body) \<noteq> NoProperty"
    "js_get SUMMARY_LENGTHS (requested_length sample_body) \<noteq> NoProperty"
    by (simp_all add: sample_body_def requested_language_def requested_length_def js_get_def
        LANGUAGES_def lengthConfigs_def LANGUAGE_PROMPTS_def SUMMARY_LENGTHS_def)
  have x: "fst (extractArticleContent offline_env ?u) = Inl ?e"
    "fst (server_extractArticleContent offline_env ?u) = Inl ?e'"
    "fst (extractArticleContent no_article_env ?u) = Inr ''''"
    by (simp_all add: extractArticleContent_def server_extractArticleContent_def io_simps
        sample_defs)
  from extraction_failure_response [OF h1 h2, of offline_env ?e ?e']
    extraction_failure_response [OF h1 h2, of no_article_env]
    h1 v x
  show ?thesis by simp
qed

text \<open>
  C5, as stated, fails: on the one-call server a page without an article makes
  extraction throw, and the response has status 500, not 400.
\<close>

theorem one_call_server_no_article_gives_500:
  "readability_parse no_article_env ''<html><body><article>Rain is expected.</article></body></html>'' =
     Inr None \<and>
   server_summarize_route no_article_env sample_body =
     (Response 500
        (ErrorDetailsBody ''Failed to generate summary''
           ''Failed to extract article content. Please check the URL and try again.''),
      [HttpGet ''https://example.com/a''])"
  by (simp add: run_defs sample_defs LANGUAGE_PROMPTS_def SUMMARY_LENGTHS_def
      english_prompt_def Let_def)

text \<open>
  C5, amended. For a request that passes validation and whose page is fetched: on the
  two-call server, when the page has no article or the article's text is empty, the
  response is 400 \<^verbatim>\<open>Could not extract article content\<close>; on the one-call server,
  when the page has no article, the response is 500 \<^verbatim>\<open>Failed to generate summary\<close>.
  In both cases the fetch is the only network call, so summarisation is not reached.
\<close>

theorem empty_article_is_extraction_failure:
  assumes "url body = Some u" and "u \<noteq> ''''"
    and "axios_get env u = Inr data" and "jsdom env data = Inr page"
  shows
   "(js_get LANGUAGES (requested_language body) \<noteq> NoProperty \<and>
     js_get lengthConfigs (requested_length body) \<noteq> NoProperty \<and>
     (readability_parse env page = Inr None \<or> readability_parse env page = Inr (Some '''')) \<longrightarrow>
       summarize_route env body =
         (Response 400 (ErrorBody ''Could not extract article content''), [HttpGet u])) \<and>
    (js_get LANGUAGE_PROMPTS (requested_language body) \<noteq> NoProperty \<and>
     js_get SUMMARY_LENGTHS (requested_length body) \<noteq> NoProperty \<and>
     remove_unwanted env page = Inr document \<and> readability_parse env document = Inr None \<longrightarrow>
       server_summarize_route env body =
         (Response 500
            (ErrorDetailsBody ''Failed to generate summary''
               ''Failed to extract article content. Please check the URL and try again.''),
          [HttpGet u]))"
proof (intro conjI impI)
  assume h: "js_get LANGUAGES (requested_language body) \<noteq> NoProperty \<and>
     js_get lengthConfigs (requested_length body) \<noteq> NoProperty \<and>
     (readability_parse env page = Inr None \<or> readability_parse env page = Inr (Some ''''))"
  then have l: "js_get LANGUAGES (requested_language body) \<noteq> NoProperty"
    and n: "js_get lengthConfigs (requested_length body) \<noteq> NoProperty" by simp_all
  from h have x: "extractArticleContent env u = (Inr '''', [HttpGet u])"
    using assms(3,4) by (auto simp add: extractArticleContent_def io_simps)
  show "summarize_route env body =
         (Response 400 (ErrorBody ''Could not extract article content''), [HttpGet u])"
    unfolding summarize_route_alt summarize_try_validated [OF assms(1,2) l refl n refl]
    by (simp add: x)
next
  assume h: "js_get LANGUAGE_PROMPTS (requested_language body) \<noteq> NoProperty \<and>
     js_get SUMMARY_LENGTHS (requested_length body) \<noteq> NoProperty \<and>
     remove_unwanted env page = Inr document \<and> readability_parse env document = Inr None"
  then have l: "js_get LANGUAGE_PROMPTS (requested_language body) \<noteq> NoProperty"
    and n: "js_get SUMMARY_LENGTHS (requested_length body) \<noteq> NoProperty" by simp_all
  from h have x: "server_extractArticleContent env u =
      (Inl ''Failed to extract article content. Please check the URL and try again.'',
       [HttpGet u])"
    using assms(3,4) by (simp add: server_extractArticleContent_def io_simps)
  show "server_summarize_route env body =
         (Response 500
            (ErrorDetailsBody ''Failed to generate summary''
               ''Failed to extract article content. Please check the URL and try again.''),
          [HttpGet u])"
    unfolding server_summarize_route_alt
      server_summarize_try_validated [OF assms(1,2) l refl n refl]
    by (simp add: x)
qed

theorem empty_article_is_extraction_failure_witness:
  "url sample_body = Some ''https://example.com/a'' \<and>
   axios_get empty_article_env ''https://example.com/a'' =
     Inr ''<html><body><article>Rain is expected.</article></body></html>'' \<and>
   readability_parse empty_article_env
     ''<html><body><article>Rain is expected.</article></body></html>'' = Inr (Some '''') \<and>
   readability_parse no_article_env
     ''<html><body><article>Rain is expected.</article></body></html>'' = Inr None \<and>
   summarize_route empty_article_env sample_body =
     (Response 400 (ErrorBody ''Could not extract article content''),
      [HttpGet ''https://example.com/a'']) \<and>
   summarize_route no_article_env sample_body =
     (Response 400 (ErrorBody ''Could not extract article content''),
      [HttpGet ''https://example.com/a'']) \<and>
   server_summarize_route no_article_env sample_body =
     (Response 500
        (ErrorDetailsBody ''Failed to generate summary''
           ''Failed to extract article content. Please check the URL and try again.''),
      [HttpGet ''https://example.com/a''])"
proof -
  let ?u = "''https://example.com/a''"
  let ?d = "''<html><body><article>Rain is expected.</article></body></html>''"
  have h1: "url sample_body = Some ?u" and h2: "?u \<noteq> ''''"
    by (simp_all add: sample_body_def)
  have e3: "axios_get empty_article_env ?u = Inr ?d" and e4: "jsdom empty_article_env ?d = Inr ?d"
    and n3: "axios_get no_article_env ?u = Inr ?d" and n4: "jsdom no_article_env ?d = Inr ?d"
    by (simp_all add: sample_defs)
  have v: "js_get LANGUAGES (requested_language sample_body) \<noteq> NoProperty"
    "js_get lengthConfigs (requested_length sample_body) \<noteq> NoProperty"
    "js_get LANGUAGE_PROMPTS (requested_language sample_body) \<noteq> NoProperty"
    "js_get SUMMARY_LENGTHS (requested_length sample_body) \<noteq> NoProperty"
    by (simp_all add: sample_body_def requested_language_def requested_length_def js_get_def
        LANGUAGES_def lengthConfigs_def LANGUAGE_PROMPTS_def SUMMARY_LENGTHS_def)
  have p: "readability_parse empty_article_env ?d = Inr (Some '''')"
    "readability_parse no_article_env ?d = Inr None"
    "remove_unwanted no_article_env ?d = Inr ?d"
    by (simp_all add: sample_defs)
  from empty_article_is_extraction_failure [OF h1 h2 e3 e4]
    empty_article_is_extraction_failure [OF h1 h2 n3 n4, of ?d]
    h1 e3 v p
  show ?thesis by simp
qed

text \<open>
  The one-call server trims the article's text and does not test it: an article whose
  text is blank is summarised, with an empty article in the prompt.
\<close>

lemma one_call_server_summarises_blank_article:
  "readability_parse blank_article_env
     ''<html><body><article>Rain is expected.</article></body></html>'' = Inr (Some '' '') \<and>
   server_extractArticleContent blank_article_env ''https://example.com/a'' =
     (Inr '''', [HttpGet ''https://example.com/a'']) \<and>
   server_summarize_route blank_article_env sample_body =
     (Response 200 (SummaryBody (Some ''- Rain is expected.'')),
      [HttpGet ''https://example.com/a'',
       ChatCreate
         (server_request
            (''Please provide a summary in English.'' @ newline @ newline @
             ''Provide a balanced summary with 4-5 key points.'' @ newline @ newline @
             ''Article content:'' @ newline @ '''')
            (Some 200))])"
  by (simp add: run_defs sample_defs LANGUAGE_PROMPTS_def SUMMARY_LENGTHS_def
      english_prompt_def server_prompt_def property_to_string_def template_undefined_def
      trim_def trimStart_def trimEnd_def ws1_def ws2_def ws3_def)

subsection \<open>Summarise, then translate\<close>

text \<open>
  C1, as stated, fails on the one-call server: for the valid language key german, which
  is not the base language, the only model call carries the German language prompt, and
  there is no translation call.
\<close>

theorem one_call_server_summarises_in_requested_language:
  "js_get LANGUAGE_PROMPTS (requested_language german_body) = Own german_prompt \<and>
   german_prompt = ''Bitte geben Sie eine Zusammenfassung auf Deutsch.'' \<and>
   server_summarize_route sample_env german_body =
     (Response 200 (SummaryBody (Some ''- Rain is expected.'')),
      [HttpGet ''https://example.com/a'',
       ChatCreate
         (server_request
            (''Bitte geben Sie eine Zusammenfassung auf Deutsch.'' @ newline @ newline @
             ''Provide a balanced summary with 4-5 key points.'' @ newline @ newline @
             ''Article content:'' @ newline @ ''Rain is expected.'')
            (Some 200))])"
  by (simp add: run_defs sample_defs german_body_def LANGUAGE_PROMPTS_def SUMMARY_LENGTHS_def
      german_prompt_def server_prompt_def property_to_string_def template_undefined_def
      trim_def trimStart_def trimEnd_def ws1_def ws2_def ws3_def)

text \<open>
  C1, amended. Take a request with a url and a language key that is an entry of the
  registry other than the base language. On the two-call server every model call of the
  request is either a summary request built from the English profile (with the note that
  the summary is written in English first) or a translation request with the prompt of
  the requested language; and when extraction gives a non-empty article, summarisation
  gives a summary and translation gives a text, the calls are the fetch, the summary
  request and one translation request whose input is that summary, and the response is
  200 with the translated text. On the one-call server the calls are the fetch and one
  model call, whose prompt starts with the prompt of the requested language.
\<close>

theorem english_summary_then_translation:
  assumes "url body = Some u" and "u \<noteq> ''''"
  shows
   "(js_get LANGUAGES (requested_language body) = Own p \<and> translationPrompt p = Some tp \<and>
     ChatCreate req \<in> set (snd (summarize_route env body)) \<longrightarrow>
       (\<exists>i l a. req = summary_request False i l a) \<or> (\<exists>s. req = translation_request tp s)) \<and>
    (js_get LANGUAGES (requested_language body) = Own p \<and> translationPrompt p = Some tp \<and>
     js_field instruction ''instruction'' (js_get lengthConfigs (requested_length body)) = Inr instr \<and>
     js_field maxTokens ''maxTokens'' (js_get lengthConfigs (requested_length body)) = Inr limit \<and>
     fst (extractArticleContent env u) = Inr a \<and> a \<noteq> '''' \<and>
     chat_create env (summary_request False instr limit a) = Inr (s # cs) \<and>
     chat_create env (translation_request tp s) = Inr (final # cs') \<longrightarrow>
       summarize_route env body =
         (Response 200 (SummaryBody final),
          [HttpGet u, ChatCreate (summary_request False instr limit a),
           ChatCreate (translation_request tp s)])) \<and>
    (js_get LANGUAGE_PROMPTS (requested_language body) = Own language_prompt \<and>
     js_field instruction ''instruction'' (js_get SUMMARY_LENGTHS (requested_length body)) = Inr instr' \<and>
     js_field maxTokens ''maxTokens'' (js_get SUMMARY_LENGTHS (requested_length body)) = Inr limit' \<and>
     fst (server_extractArticleContent env u) = Inr a' \<longrightarrow>
       snd (server_summarize_route env body) =
         [HttpGet u,
          ChatCreate
            (server_request
               (language_prompt @ newline @ newline @ template_undefined instr' @ newline @
                newline @ ''Article content:'' @ newline @ a')
               limit')])"
proof (intro conjI impI)
  assume "js_get LANGUAGES (requested_language body) = Own p \<and> translationPrompt p = Some tp \<and>
     ChatCreate req \<in> set (snd (summarize_route env body))"
  then show "(\<exists>i l a. req = summary_request False i l a) \<or> (\<exists>s. req = translation_request tp s)"
    using summarize_route_calls [of body p tp req env] by blast
next
  assume h: "js_get LANGUAGES (requested_language body) = Own p \<and> translationPrompt p = Some tp \<and>
     js_field instruction ''instruction'' (js_get lengthConfigs (requested_length body)) = Inr instr \<and>
     js_field maxTokens ''maxTokens'' (js_get lengthConfigs (requested_length body)) = Inr limit \<and>
     fst (extractArticleContent env u) = Inr a \<and> a \<noteq> '''' \<and>
     chat_create env (summary_request False instr limit a) = Inr (s # cs) \<and>
     chat_create env (translation_request tp s) = Inr (final # cs')"
  then have p: "js_get LANGUAGES (requested_language body) = Own p"
    and tp: "translationPrompt p = Some tp"
    and i: "js_field instruction ''instruction'' (js_get lengthConfigs (requested_length body)) = Inr instr"
    and m: "js_field maxTokens ''maxTokens'' (js_get lengthConfigs (requested_length body)) = Inr limit"
    by simp_all
  have l: "js_get LANGUAGES (requested_language body) \<noteq> NoProperty"
    using p by simp
  have n: "js_get lengthConfigs (requested_length body) \<noteq> NoProperty"
    using i by (rule js_field_Inr_found)
  have e: "(requested_language body = ''english'') = False"
    using non_base_not_english [OF p tp] by simp
  have tr: "translateText env s (requested_language body) =
      (Inr final, [ChatCreate (translation_request tp s)])"
    using translateText_prompt [OF p tp translationPrompt_nonempty [OF p tp], of env s] h
    by simp
  show "summarize_route env body =
         (Response 200 (SummaryBody final),
          [HttpGet u, ChatCreate (summary_request False instr limit a),
           ChatCreate (translation_request tp s)])"
    unfolding summarize_route_alt summarize_try_validated [OF assms l refl n refl]
    using h tr
    by (simp add: e js_field_Inr_value [OF i] js_field_Inr_value [OF m]
        extractArticleContent_trace)
next
  assume h: "js_get LANGUAGE_PROMPTS (requested_language body) = Own language_prompt \<and>
     js_field instruction ''instruction'' (js_get SUMMARY_LENGTHS (requested_length body)) = Inr instr' \<and>
     js_field maxTokens ''maxTokens'' (js_get SUMMARY_LENGTHS (requested_length body)) = Inr limit' \<and>
     fst (server_extractArticleContent env u) = Inr a'"
  then have p: "js_get LANGUAGE_PROMPTS (requested_language body) = Own language_prompt"
    and i: "js_field instruction ''instruction'' (js_get SUMMARY_LENGTHS (requested_length body)) = Inr instr'"
    and m: "js_field maxTokens ''maxTokens'' (js_get SUMMARY_LENGTHS (requested_length body)) = Inr limit'"
    by simp_all
  have l: "js_get LANGUAGE_PROMPTS (requested_language body) \<noteq> NoProperty"
    using p by simp
  have n: "js_get SUMMARY_LENGTHS (requested_length body) \<noteq> NoProperty"
    using i by (rule js_field_Inr_found)
  show "snd (server_summarize_route env body) =
         [HttpGet u,
          ChatCreate
            (server_request
               (language_prompt @ newline @ newline @ template_undefined instr' @ newline @
                newline @ ''Article content:'' @ newline @ a')
               limit')]"
    unfolding server_summarize_route_alt server_summarize_try_validated [OF assms l refl n refl]
    using h
    by (simp add: js_field_Inr_value [OF i] js_field_Inr_value [OF m]
        server_extractArticleContent_trace server_prompt_def property_to_string_def)
qed

theorem english_summary_then_translation_witness:
  "url german_body = Some ''https://example.com/a'' \<and>
   js_get LANGUAGES (requested_language german_body) = Own german_profile \<and>
   translationPrompt german_profile = Some german_translationPrompt \<and>
   fst (extractArticleContent sample_env ''https://example.com/a'') = Inr ''Rain is expected.'' \<and>
   chat_create sample_env
     (summary_request False
        (Some (''Provide a balanced summary with 4-5 bullet points, covering the main '' @
               ''points and key supporting details.''))
        (Some 350) ''Rain is expected.'') = Inr [Some ''- Rain is expected.''] \<and>
   chat_create sample_env
     (translation_request german_translationPrompt (Some ''- Rain is expected.'')) =
     Inr [Some ''- Rain is expected.''] \<and>
   summarize_route sample_env german_body =
     (Response 200 (SummaryBody (Some ''- Rain is expected.'')),
      [HttpGet ''https://example.com/a'',
       ChatCreate (summary_request False
          (Some (''Provide a balanced summary with 4-5 bullet points, covering the main '' @
                 ''points and key supporting details.''))
          (Some 350) ''Rain is expected.''),
       ChatCreate (translation_request german_translationPrompt (Some ''- Rain is expected.''))]) \<and>
   ChatCreate (summary_request False
          (Some (''Provide a balanced summary with 4-5 bullet points, covering the main '' @
                 ''points and key supporting details.''))
          (Some 350) ''Rain is expected.'')
     \<in> set (snd (summarize_route sample_env german_body)) \<and>
   js_get LANGUAGE_PROMPTS (requested_language german_body) = Own german_prompt \<and>
   fst (server_extractArticleContent sample_env ''https://example.com/a'') =
     Inr ''Rain is expected.'' \<and>
   snd (server_summarize_route sample_env german_body) =
     [HttpGet ''https://example.com/a'',
      ChatCreate
        (server_request
           (german_prompt @ newline @ newline @
            ''Provide a balanced summary with 4-5 key points.'' @ newline @ newline @
            ''Article content:'' @ newline @ ''Rain is expected.'')
           (Some 200))]"
proof -
  let ?u = "''https://example.com/a''"
  let ?i = "Some (''Provide a balanced summary with 4-5 bullet points, covering the main '' @
               ''points and key supporting details.'')"
  let ?i' = "Some ''Provide a balanced summary with 4-5 key points.''"
  let ?a = "''Rain is expected.''"
  let ?s = "Some ''- Rain is expected.''"
  let ?r = "summary_request False ?i (Some 350) ?a"
  have h1: "url german_body = Some ?u" and h2: "?u \<noteq> ''''"
    by (simp_all add: german_body_def sample_body_def)
  have h3: "js_get LANGUAGES (requested_language german_body) = Own german_profile"
    by (simp add: german_body_def sample_body_def requested_language_def js_get_def
        LANGUAGES_def)
  have h4: "translationPrompt german_profile = Some german_translationPrompt"
    by (simp add: german_profile_def)
  have h5: "js_field instruction ''instruction''
              (js_get lengthConfigs (requested_length german_body)) = Inr ?i"
    and h6: "js_field maxTokens ''maxTokens''
              (js_get lengthConfigs (requested_length german_body)) = Inr (Some 350)"
    by (simp_all add: german_body_def sample_body_def requested_length_def js_get_def
        js_field_def lengthConfigs_def)
  have h7: "fst (extractArticleContent sample_env ?u) = Inr ?a" and h8: "?a \<noteq> ''''"
    by (simp_all add: extractArticleContent_def io_simps sample_env_def)
  have h9: "chat_create sample_env ?r = Inr [?s]"
    and h10: "chat_create sample_env (translation_request german_translationPrompt ?s) = Inr [?s]"
    by (simp_all add: sample_env_def)
  have g1: "js_get LANGUAGE_PROMPTS (requested_language german_body) = Own german_prompt"
    by (simp add: german_body_def sample_body_def requested_language_def js_get_def
        LANGUAGE_PROMPTS_def)
  have g2: "js_field instruction ''instruction''
              (js_get SUMMARY_LENGTHS (requested_length german_body)) = Inr ?i'"
    and g3: "js_field maxTokens ''maxTokens''
              (js_get SUMMARY_LENGTHS (requested_length german_body)) = Inr (Some 200)"
    by (simp_all add: german_body_def sample_body_def requested_length_def js_get_def
        js_field_def SUMMARY_LENGTHS_def)
  have g4: "fst (server_extractArticleContent sample_env ?u) = Inr ?a"
    by (simp add: server_extractArticleContent_def io_simps sample_env_def
        trim_def trimStart_def trimEnd_def ws1_def ws2_def ws3_def)
  have run: "summarize_route sample_env german_body =
      (Response 200 (SummaryBody ?s),
       [HttpGet ?u, ChatCreate ?r,
        ChatCreate (translation_request german_translationPrompt ?s)])"
    using english_summary_then_translation [OF h1 h2,
      of german_profile german_translationPrompt ?r sample_env ?i "Some 350" ?a ?s "[]" ?s "[]"]
      h3 h4 h5 h6 h7 h8 h9 h10
    by simp
  have srun: "snd (server_summarize_route sample_env german_body) =
     [HttpGet ?u,
      ChatCreate
        (server_request
           (german_prompt @ newline @ newline @
            ''Provide a balanced summary with 4-5 key points.'' @ newline @ newline @
            ''Article content:'' @ newline @ ?a)
           (Some 200))]"
    using english_summary_then_translation [OF h1 h2,
      of german_profile german_translationPrompt ?r sample_env ?i "Some 350" ?a ?s "[]" ?s "[]"
         german_prompt ?i' "Some 200" ?a]
      g1 g2 g3 g4
    by (simp add: template_undefined_def)
  from h1 h3 h4 h7 h9 h10 run g1 g4 srun show ?thesis by simp
qed

text \<open>
  C7. On the two-call server, for a language other than the base language: when
  summarisation has produced a summary and the translation call then fails (it throws,
  or answers without a choice), the response is 500 \<^verbatim>\<open>Failed to generate summary\<close>
  with details \<^verbatim>\<open>Failed to translate the summary\<close>. The summary is not returned.
\<close>

theorem translation_failure_fails_request:
  assumes "url body = Some u" and "u \<noteq> ''''"
    and "js_get LANGUAGES (requested_language body) = Own p"
    and "translationPrompt p = Some tp"
    and "js_field instruction ''instruction'' (js_get lengthConfigs (requested_length body)) = Inr instr"
    and "js_field maxTokens ''maxTokens'' (js_get lengthConfigs (requested_length body)) = Inr limit"
    and "fst (extractArticleContent env u) = Inr a" and "a \<noteq> ''''"
    and "chat_create env (summary_request False instr limit a) = Inr (s # cs)"
    and "chat_create env (translation_request tp s) = Inl msg \<or>
         chat_create env (translation_request tp s) = Inr []"
  shows "summarize_route env body =
     (Response 500
        (ErrorDetailsBody ''Failed to generate summary'' ''Failed to translate the summary''),
      [HttpGet u, ChatCreate (summary_request False instr limit a),
       ChatCreate (translation_request tp s)])"
proof -
  have l: "js_get LANGUAGES (requested_language body) \<noteq> NoProperty"
    using assms(3) by simp
  have n: "js_get lengthConfigs (requested_length body) \<noteq> NoProperty"
    using assms(5) by (rule js_field_Inr_found)
  have e: "(requested_language body = ''english'') = False"
    using non_base_not_english [OF assms(3,4)] by simp
  have tr: "translateText env s (requested_language body) =
      (Inl ''Failed to translate the summary'', [ChatCreate (translation_request tp s)])"
    using translateText_prompt [OF assms(3,4) translationPrompt_nonempty [OF assms(3,4)], of env s]
      assms(10) by auto
  show ?thesis
    unfolding summarize_route_alt summarize_try_validated [OF assms(1,2) l refl n refl]
    using assms(7,8,9) tr
    by (simp add: e js_field_Inr_value [OF assms(5)] js_field_Inr_value [OF assms(6)]
        extractArticleContent_trace)
qed

theorem translation_failure_fails_request_witness:
  "url german_body = Some ''https://example.com/a'' \<and>
   js_get LANGUAGES (requested_language german_body) = Own german_profile \<and>
   translationPrompt german_profile = Some german_translationPrompt \<and>
   fst (extractArticleContent translation_down_env ''https://example.com/a'') =
     Inr ''Rain is expected.'' \<and>
   chat_create translation_down_env
     (summary_request False
        (Some (''Provide a balanced summary with 4-5 bullet points, covering the main '' @
               ''points and key supporting details.''))
        (Some 350) ''Rain is expected.'') = Inr [Some ''- Rain is expected.''] \<and>
   chat_create translation_down_env
     (translation_request german_translationPrompt (Some ''- Rain is expected.'')) =
     Inl ''429 Rate limit reached'' \<and>
   summarize_route translation_down_env german_body =
     (Response 500
        (ErrorDetailsBody ''Failed to generate summary'' ''Failed to translate the summary''),
      [HttpGet ''https://example.com/a'',
       ChatCreate (summary_request False
          (Some (''Provide a balanced summary with 4-5 bullet points, covering the main '' @
                 ''points and key supporting details.''))
          (Some 350) ''Rain is expected.''),
       ChatCreate (translation_request german_translationPrompt (Some ''- Rain is expected.''))])"
proof -
  let ?u = "''https://example.com/a''"
  let ?i = "Some (''Provide a balanced summary with 4-5 bullet points, covering the main '' @
               ''points and key supporting details.'')"
  let ?a = "''Rain is expected.''"
  let ?s = "Some ''- Rain is expected.''"
  have h1: "url german_body = Some ?u" and h2: "?u \<noteq> ''''"
    by (simp_all add: german_body_def sample_body_def)
  have h3: "js_get LANGUAGES (requested_language german_body) = Own german_profile"
    by (simp add: german_body_def sample_body_def requested_language_def js_get_def
        LANGUAGES_def)
  have h4: "translationPrompt german_profile = Some german_translationPrompt"
    by (simp add: german_profile_def)
  have h5: "js_field instruction ''instruction''
              (js_get lengthConfigs (requested_length german_body)) = Inr ?i"
    and h6: "js_field maxTokens ''maxTokens''
              (js_get lengthConfigs (requested_length german_body)) = Inr (Some 350)"
    by (simp_all add: german_body_def sample_body_def requested_length_def js_get_def
        js_field_def lengthConfigs_def)
  have h7: "fst (extractArticleContent translation_down_env ?u) = Inr ?a" and h8: "?a \<noteq> ''''"
    by (simp_all add: extractArticleContent_def io_simps translation_down_env_def
        sample_env_def)
  have h9: "chat_create translation_down_env (summary_request False ?i (Some 350) ?a) =
      Inr [?s]"
    by (simp add: translation_down_env_def sample_env_def summary_request_def)
  have h10: "chat_create translation_down_env (translation_request german_translationPrompt ?s) =
      Inl ''429 Rate limit reached''"
    by (simp add: translation_down_env_def sample_env_def translation_request_def)
  from translation_failure_fails_request [OF h1 h2 h3 h4 h5 h6 h7 h8 h9 disjI1 [OF h10]]
    h1 h3 h4 h7 h9 h10
  show ?thesis by simp
qed

subsection \<open>Errors at the HTTP boundary\<close>



end
